theory Spec2Isabelle
  imports Complex_Main
begin

section \<open>DevInspect: performance metrics, observers and the result cache\<close>

text \<open>
  A shallow embedding of \<^verbatim>\<open>src/content/modules/performance.ts\<close>. The module keeps four
  variables (the cached snapshot, the time it was computed, the initialisation flag and the
  vitals store) and talks to the browser: \<^verbatim>\<open>PerformanceObserver\<close>, the performance timeline,
  \<^verbatim>\<open>document.querySelectorAll\<close> and \<^verbatim>\<open>Date.now\<close>. The browser is a parameter of the model
  (the record \<open>platform\<close>), the module variables are a record that every operation takes and
  returns, and an exception is the left summand of the result.

  JavaScript numbers are modelled by real numbers with exact arithmetic; \<^verbatim>\<open>NaN\<close> and the
  infinities have no counterpart. \<^verbatim>\<open>null\<close> and \<^verbatim>\<open>undefined\<close> are \<open>None\<close>.
\<close>

subsection \<open>Exceptions\<close>

datatype js_error = TypeError | DOMException | NotSupportedError

type_synonym 'a js = "js_error + 'a"

subsection \<open>Numbers as text\<close>

text \<open>The decimal digits of a non-negative integer, as a template literal prints it.\<close>

definition digitChar :: "nat \<Rightarrow> char" where
  "digitChar d = ''0123456789'' ! d"

function decimalString :: "nat \<Rightarrow> string" where
  "decimalString n =
     (if n < 10 then [digitChar n] else decimalString (n div 10) @ [digitChar (n mod 10)])"
  by pat_completeness auto
termination
  by (relation "measure id") auto

declare decimalString.simps [simp del]

text \<open>
  \<^verbatim>\<open>Number.prototype.toFixed(f)\<close> after ECMA-262: the sign is split off; a magnitude of at
  least \<open>10^21\<close> is printed by \<^verbatim>\<open>Number::toString\<close> (the parameter \<open>numStr\<close>, which the
  repository does not define); otherwise \<open>n\<close> is the integer nearest to \<open>x * 10^f\<close>, the
  larger one at a tie, its digits are padded with zeros to \<open>f + 1\<close> characters and the point
  is put before the last \<open>f\<close> of them.
\<close>

definition toFixed :: "(real \<Rightarrow> string) \<Rightarrow> real \<Rightarrow> nat \<Rightarrow> string" where
  "toFixed numStr x0 f =
     (let s = (if x0 < 0 then ''-'' else '''');
          x = \<bar>x0\<bar>
      in if x \<ge> 10 ^ 21 then s @ numStr x
         else
           let n = nat \<lfloor>x * 10 ^ f + 1 / 2\<rfloor>;
               m = decimalString n;
               m' = (if f \<noteq> 0 then
                       let m1 = (if length m \<le> f
                                 then replicate (f + 1 - length m) CHR ''0'' @ m else m);
                           k = length m1
                       in take (k - f) m1 @ ''.'' @ drop (k - f) m1
                     else m)
           in s @ m')"

text \<open>A nullable number inside a template literal: \<^verbatim>\<open>null\<close> prints as the word.\<close>

definition templateNumber :: "(real \<Rightarrow> string) \<Rightarrow> real option \<Rightarrow> string" where
  "templateNumber numStr x = (case x of None \<Rightarrow> ''null'' | Some y \<Rightarrow> numStr y)"

subsection \<open>Data model\<close>

datatype severity_level = High | Medium | Low

record PerformanceWarning =
  title :: string
  solution :: string
  severity :: severity_level

record PerformanceMetrics =
  lcp :: "real option"
  cls :: real
  fid :: "real option"
  inp :: "real option"
  ttfb :: "real option"

record ExtendedPerformanceMetrics = PerformanceMetrics +
  totalNodes :: nat
  totalImages :: nat
  totalScripts :: nat
  totalStylesheets :: nat
  warnings :: "PerformanceWarning list"

text \<open>Performance-timeline entries, with the fields the module reads.\<close>

record lcp_entry =
  renderTime :: real
  loadTime :: real

record layout_shift_entry =
  shiftValue :: real
  hadRecentInput :: bool

record first_input_entry =
  processingStart :: real
  startTime :: real

record event_entry =
  duration :: real

record navigation_entry =
  responseStart :: real
  requestStart :: real

record resource_entry =
  initiatorType :: string
  transferSize :: "nat option"

text \<open>The four observers that \<^verbatim>\<open>initWebVitals\<close> creates, by the entry type they observe.\<close>

datatype observer_kind = LCP | CLS | FID | INP

text \<open>One batch of entries of one type, as the browser hands it to an observer callback.\<close>

datatype entry_batch =
    LcpBatch "lcp_entry list"
  | ClsBatch "layout_shift_entry list"
  | FidBatch "first_input_entry list"
  | InpBatch "event_entry list"

subsection \<open>The browser\<close>

text \<open>
  What the module asks of the browser. A call that may throw has a result in \<open>js\<close>.
  \<open>observerSupported k\<close> says that constructing the observer and calling \<^verbatim>\<open>observe\<close> for
  the entry type of \<open>k\<close> does not throw; \<open>querySelectorAllLength sel\<close> is
  \<^verbatim>\<open>document.querySelectorAll(sel).length\<close>; \<open>numberToString\<close> is \<^verbatim>\<open>Number::toString\<close>.
\<close>

record platform =
  hasPerformanceObserver :: bool
  observerSupported :: "observer_kind \<Rightarrow> bool"
  hasPerformance :: bool
  navigationEntries :: "navigation_entry list js"
  resourceEntries :: "resource_entry list js"
  querySelectorAllLength :: "string \<Rightarrow> nat js"
  numberToString :: "real \<Rightarrow> string"

subsection \<open>Module state\<close>

text \<open>
  The module's variables, and the observers that are registered with the browser's
  performance timeline. A registered observer stays registered until \<^verbatim>\<open>disconnect\<close> is
  called on it; the module keeps no reference to its observers and never calls it.
\<close>

record module_state =
  cachedPerformanceMetrics :: "ExtendedPerformanceMetrics option"
  lastMetricsCalculationTime :: int
  vitalsObserversInitialized :: bool
  observedVitals :: PerformanceMetrics
  registeredObservers :: "observer_kind list"

definition METRICS_CACHE_DURATION :: int where
  "METRICS_CACHE_DURATION = 5000"

definition initialVitals :: PerformanceMetrics where
  "initialVitals = \<lparr>lcp = None, cls = 0, fid = None, inp = None, ttfb = None\<rparr>"

definition initialState :: module_state where
  "initialState =
     \<lparr>cachedPerformanceMetrics = None,
      lastMetricsCalculationTime = 0,
      vitalsObserversInitialized = False,
      observedVitals = initialVitals,
      registeredObservers = []\<rparr>"

subsection \<open>Observer callbacks\<close>

text \<open>
  Each callback runs inside its own \<^verbatim>\<open>try\<close>; on entries of the shapes above nothing in
  it throws. \<^verbatim>\<open>a || b || 0\<close> on numbers takes the first one that is not zero.
\<close>

definition lcpCallback :: "lcp_entry list \<Rightarrow> PerformanceMetrics \<Rightarrow> PerformanceMetrics" where
  "lcpCallback entries v =
     (if entries = [] then v
      else let lastEntry = last entries
           in v\<lparr>lcp := Some (if renderTime lastEntry \<noteq> 0 then renderTime lastEntry
                             else if loadTime lastEntry \<noteq> 0 then loadTime lastEntry
                             else 0)\<rparr>)"

definition clsStep :: "layout_shift_entry \<Rightarrow> PerformanceMetrics \<Rightarrow> PerformanceMetrics" where
  "clsStep layoutShift v =
     (if \<not> hadRecentInput layoutShift then v\<lparr>cls := cls v + shiftValue layoutShift\<rparr> else v)"

definition clsCallback ::
  "layout_shift_entry list \<Rightarrow> PerformanceMetrics \<Rightarrow> PerformanceMetrics" where
  "clsCallback entries v = fold clsStep entries v"

definition fidCallback ::
  "first_input_entry list \<Rightarrow> PerformanceMetrics \<Rightarrow> PerformanceMetrics" where
  "fidCallback entries v =
     (case entries of
        [] \<Rightarrow> v
      | firstInput # _ \<Rightarrow> v\<lparr>fid := Some (processingStart firstInput - startTime firstInput)\<rparr>)"

definition inpStep :: "event_entry \<Rightarrow> PerformanceMetrics \<Rightarrow> PerformanceMetrics" where
  "inpStep entry v =
     (if duration entry \<noteq> 0 \<and> duration entry > 40 then
        (case inp v of
           None \<Rightarrow> v\<lparr>inp := Some (duration entry)\<rparr>
         | Some cur \<Rightarrow> if duration entry > cur then v\<lparr>inp := Some (duration entry)\<rparr> else v)
      else v)"

definition inpCallback :: "event_entry list \<Rightarrow> PerformanceMetrics \<Rightarrow> PerformanceMetrics" where
  "inpCallback entries v = fold inpStep entries v"

text \<open>An observer receives the batches of its own entry type only.\<close>

fun batchKind :: "entry_batch \<Rightarrow> observer_kind" where
  "batchKind (LcpBatch entries) = LCP"
| "batchKind (ClsBatch entries) = CLS"
| "batchKind (FidBatch entries) = FID"
| "batchKind (InpBatch entries) = INP"

fun runCallback :: "entry_batch \<Rightarrow> PerformanceMetrics \<Rightarrow> PerformanceMetrics" where
  "runCallback (LcpBatch entries) v = lcpCallback entries v"
| "runCallback (ClsBatch entries) v = clsCallback entries v"
| "runCallback (FidBatch entries) v = fidCallback entries v"
| "runCallback (InpBatch entries) v = inpCallback entries v"

definition observerCallback ::
  "observer_kind \<Rightarrow> entry_batch \<Rightarrow> PerformanceMetrics \<Rightarrow> PerformanceMetrics" where
  "observerCallback k batch v = (if k = batchKind batch then runCallback batch v else v)"

text \<open>The browser delivers a batch: every registered observer's callback runs on it.\<close>

definition deliver :: "entry_batch \<Rightarrow> module_state \<Rightarrow> module_state" where
  "deliver batch s =
     s\<lparr>observedVitals :=
         fold (\<lambda>k v. observerCallback k batch v) (registeredObservers s) (observedVitals s)\<rparr>"

subsection \<open>initWebVitals\<close>

text \<open>
  \<^verbatim>\<open>new PerformanceObserver(cb).observe({type, buffered: true})\<close>: registers the observer,
  or throws where the entry type is not supported.
\<close>

definition observe :: "platform \<Rightarrow> observer_kind \<Rightarrow> module_state \<Rightarrow> module_state js" where
  "observe env k s =
     (if observerSupported env k
      then Inr (s\<lparr>registeredObservers := registeredObservers s @ [k]\<rparr>)
      else Inl NotSupportedError)"

text \<open>One \<^verbatim>\<open>try { ... observe ... } catch (error) { }\<close> block.\<close>

definition tryObserve :: "platform \<Rightarrow> observer_kind \<Rightarrow> module_state \<Rightarrow> module_state" where
  "tryObserve env k s = (case observe env k s of Inl e \<Rightarrow> s | Inr s' \<Rightarrow> s')"

text \<open>
  \<^verbatim>\<open>performance.getEntriesByType('navigation')[0]\<close>: a \<^verbatim>\<open>TypeError\<close> without
  \<^verbatim>\<open>window.performance\<close>, \<^verbatim>\<open>undefined\<close> on an empty list.
\<close>

definition firstNavigationEntry :: "platform \<Rightarrow> navigation_entry option js" where
  "firstNavigationEntry env =
     (if \<not> hasPerformance env then Inl TypeError
      else case navigationEntries env of
             Inl e \<Rightarrow> Inl e
           | Inr [] \<Rightarrow> Inr None
           | Inr (navEntry # _) \<Rightarrow> Inr (Some navEntry))"

definition tryTtfb :: "platform \<Rightarrow> module_state \<Rightarrow> module_state" where
  "tryTtfb env s =
     (case firstNavigationEntry env of
        Inl e \<Rightarrow> s
      | Inr None \<Rightarrow> s
      | Inr (Some navEntry) \<Rightarrow>
          s\<lparr>observedVitals :=
              (observedVitals s)\<lparr>ttfb := Some (responseStart navEntry - requestStart navEntry)\<rparr>\<rparr>)"

definition initWebVitals :: "platform \<Rightarrow> module_state \<Rightarrow> module_state js" where
  "initWebVitals env s =
     (if vitalsObserversInitialized s then Inr s
      else if \<not> hasPerformanceObserver env then Inr s
      else
        let s0 = s\<lparr>vitalsObserversInitialized := True\<rparr>;
            s1 = tryObserve env LCP s0;
            s2 = tryObserve env CLS s1;
            s3 = tryObserve env FID s2;
            s4 = tryObserve env INP s3
        in Inr (tryTtfb env s4))"

subsection \<open>The aggregator\<close>

definition getEmptyMetrics :: ExtendedPerformanceMetrics where
  "getEmptyMetrics =
     \<lparr>lcp = None, cls = 0, fid = None, inp = None, ttfb = None,
      totalNodes = 0, totalImages = 0, totalScripts = 0, totalStylesheets = 0,
      warnings = []\<rparr>"

text \<open>\<^verbatim>\<open>r.transferSize || 0\<close>\<close>

definition transferSizeOr0 :: "resource_entry \<Rightarrow> nat" where
  "transferSizeOr0 r = (case transferSize r of None \<Rightarrow> 0 | Some n \<Rightarrow> n)"

definition exceeds :: "real option \<Rightarrow> real \<Rightarrow> bool" where
  "exceeds x limit = (case x of None \<Rightarrow> False | Some y \<Rightarrow> y > limit)"

text \<open>Warning 1: large images, only when LCP is bad.\<close>

definition largeImagesWarning ::
  "(real \<Rightarrow> string) \<Rightarrow> bool \<Rightarrow> resource_entry list \<Rightarrow> PerformanceWarning list" where
  "largeImagesWarning numStr lcpIsBad images =
     (if lcpIsBad then
        let largeImages = filter (\<lambda>img. transferSizeOr0 img > 200000) images
        in if length largeImages > 0 then
             let avgSize =
                   toFixed numStr
                     (real (fold (\<lambda>img sum. sum + transferSizeOr0 img) largeImages 0)
                        / real (length largeImages) / 1024) 0
             in [\<lparr>title = decimalString (length largeImages) @ '' large images detected (avg ''
                             @ avgSize @ ''KB)'',
                   solution = ''Compress images, convert to WebP/AVIF, use responsive images with srcset, implement lazy loading'',
                   severity = High\<rparr>]
           else []
      else [])"

text \<open>Warning 2: layout shifts.\<close>

definition layoutStabilityWarning ::
  "(real \<Rightarrow> string) \<Rightarrow> PerformanceMetrics \<Rightarrow> PerformanceWarning list" where
  "layoutStabilityWarning numStr v =
     (if cls v > 1 / 10 then
        [\<lparr>title = ''Poor layout stability (CLS: '' @ toFixed numStr (cls v) 3 @ '')'',
          solution = ''Set explicit width/height on images and ads. Reserve space for dynamic content. Avoid inserting content above existing content'',
          severity = High\<rparr>]
      else [])"

text \<open>Warning 3: slow server response.\<close>

definition slowServerWarning ::
  "(real \<Rightarrow> string) \<Rightarrow> PerformanceMetrics \<Rightarrow> PerformanceWarning list" where
  "slowServerWarning numStr v =
     (case ttfb v of
        None \<Rightarrow> []
      | Some ttfbValue \<Rightarrow>
          if ttfbValue > 800 then
            [\<lparr>title = ''Slow server response time ('' @ toFixed numStr ttfbValue 0 @ ''ms)'',
              solution = ''Optimize backend queries, use CDN, implement server-side caching, upgrade hosting plan'',
              severity = Medium\<rparr>]
          else [])"

text \<open>Warning 4: poor interactivity, FID or INP.\<close>

definition interactivityWarning ::
  "(real \<Rightarrow> string) \<Rightarrow> PerformanceMetrics \<Rightarrow> PerformanceWarning list" where
  "interactivityWarning numStr v =
     (let fidIsBad = exceeds (fid v) 100;
          inpIsBad = exceeds (inp v) 200
      in if fidIsBad \<or> inpIsBad then
           let metric = (if fidIsBad then ''FID: '' @ templateNumber numStr (fid v) @ ''ms''
                         else ''INP: '' @ templateNumber numStr (inp v) @ ''ms'')
           in [\<lparr>title = ''Slow interactivity detected ('' @ metric @ '')'',
                 solution = ''Reduce JavaScript execution time, break up long tasks, use web workers for heavy computation'',
                 severity = High\<rparr>]
         else [])"

text \<open>Warning 5: heavy JavaScript, only when LCP is bad.\<close>

definition heavyScriptsWarning ::
  "(real \<Rightarrow> string) \<Rightarrow> bool \<Rightarrow> resource_entry list \<Rightarrow> PerformanceWarning list" where
  "heavyScriptsWarning numStr lcpIsBad scripts =
     (if lcpIsBad then
        let largeScripts = filter (\<lambda>s. transferSizeOr0 s > 500000) scripts
        in if length largeScripts > 0 then
             let totalSize =
                   toFixed numStr
                     (real (fold (\<lambda>s sum. sum + transferSizeOr0 s) largeScripts 0) / 1024) 0
             in [\<lparr>title = ''Heavy JavaScript detected ('' @ totalSize @ ''KB across ''
                             @ decimalString (length largeScripts) @ '' files)'',
                   solution = ''Code-split bundles, defer non-critical JS, remove unused dependencies, enable compression'',
                   severity = Medium\<rparr>]
           else []
      else [])"

text \<open>Warning 6: images without an alt attribute.\<close>

definition missingAltWarning :: "nat \<Rightarrow> PerformanceWarning list" where
  "missingAltWarning imgsWithoutAlt =
     (if imgsWithoutAlt > 0 then
        [\<lparr>title = decimalString imgsWithoutAlt @ '' images missing alt attributes'',
          solution = ''Add descriptive alt text to all images for accessibility and SEO'',
          severity = Low\<rparr>]
      else [])"

text \<open>
  The \<^verbatim>\<open>try\<close> block of \<^verbatim>\<open>calculatePerformanceMetrics\<close>: the two DOM queries and the
  resource-timing read may throw; the warnings are pushed in the order of the source.
\<close>

definition calculateTry :: "platform \<Rightarrow> PerformanceMetrics \<Rightarrow> ExtendedPerformanceMetrics js" where
  "calculateTry env v =
     (case querySelectorAllLength env ''*'' of
        Inl e \<Rightarrow> Inl e
      | Inr nodes \<Rightarrow>
     (case resourceEntries env of
        Inl e \<Rightarrow> Inl e
      | Inr resources \<Rightarrow>
          let images = filter (\<lambda>r. initiatorType r = ''img'') resources;
              scripts = filter (\<lambda>r. initiatorType r = ''script'') resources;
              stylesheets =
                filter (\<lambda>r. initiatorType r = ''link'' \<or> initiatorType r = ''css'') resources;
              lcpIsBad = exceeds (lcp v) 2500;
              warnings1to5 =
                largeImagesWarning (numberToString env) lcpIsBad images
                @ layoutStabilityWarning (numberToString env) v
                @ slowServerWarning (numberToString env) v
                @ interactivityWarning (numberToString env) v
                @ heavyScriptsWarning (numberToString env) lcpIsBad scripts
          in (case querySelectorAllLength env ''img:not([alt])'' of
                Inl e \<Rightarrow> Inl e
              | Inr imgsWithoutAlt \<Rightarrow>
                  Inr \<lparr>lcp = lcp v, cls = cls v, fid = fid v, inp = inp v, ttfb = ttfb v,
                       totalNodes = nodes,
                       totalImages = length images,
                       totalScripts = length scripts,
                       totalStylesheets = length stylesheets,
                       warnings = warnings1to5 @ missingAltWarning imgsWithoutAlt\<rparr>)))"

definition calculatePerformanceMetrics ::
  "platform \<Rightarrow> PerformanceMetrics \<Rightarrow> ExtendedPerformanceMetrics js" where
  "calculatePerformanceMetrics env v =
     (if \<not> hasPerformance env then Inr getEmptyMetrics
      else case calculateTry env v of
             Inl error \<Rightarrow> Inr getEmptyMetrics
           | Inr metrics \<Rightarrow> Inr metrics)"

subsection \<open>The result cache\<close>

text \<open>
  \<open>now\<close> is the value of \<^verbatim>\<open>Date.now()\<close>, an integer number of milliseconds.
  \<open>calculateAndStore\<close> is the part of the \<^verbatim>\<open>try\<close> block after the cache test: it calls the
  aggregator and then assigns the two cache variables. The module variables change only
  after the aggregator has returned, so the handler runs in the state of the call.
\<close>

definition calculateAndStore ::
  "platform \<Rightarrow> int \<Rightarrow> module_state \<Rightarrow> (ExtendedPerformanceMetrics \<times> module_state) js" where
  "calculateAndStore env now s =
     (case calculatePerformanceMetrics env (observedVitals s) of
        Inl e \<Rightarrow> Inl e
      | Inr metrics \<Rightarrow>
          Inr (metrics, s\<lparr>cachedPerformanceMetrics := Some metrics,
                          lastMetricsCalculationTime := now\<rparr>))"

definition getPerformanceMetricsTry ::
  "platform \<Rightarrow> int \<Rightarrow> module_state \<Rightarrow> (ExtendedPerformanceMetrics \<times> module_state) js" where
  "getPerformanceMetricsTry env now s =
     (case cachedPerformanceMetrics s of
        None \<Rightarrow> calculateAndStore env now s
      | Some cached \<Rightarrow>
          if now - lastMetricsCalculationTime s < METRICS_CACHE_DURATION
          then Inr (cached, s)
          else calculateAndStore env now s)"

definition getPerformanceMetrics ::
  "platform \<Rightarrow> int \<Rightarrow> module_state \<Rightarrow> (ExtendedPerformanceMetrics \<times> module_state) js" where
  "getPerformanceMetrics env now s =
     (case getPerformanceMetricsTry env now s of
        Inl error \<Rightarrow> Inr (getEmptyMetrics, s)
      | Inr r \<Rightarrow> Inr r)"

definition clearPerformanceCache :: "module_state \<Rightarrow> module_state js" where
  "clearPerformanceCache s =
     Inr (s\<lparr>cachedPerformanceMetrics := None, lastMetricsCalculationTime := 0\<rparr>)"

subsection \<open>resetWebVitals\<close>

definition resetWebVitals :: "module_state \<Rightarrow> module_state js" where
  "resetWebVitals s =
     (let s1 = s\<lparr>observedVitals :=
                   (observedVitals s)\<lparr>lcp := None, cls := 0, fid := None, inp := None,
                                      ttfb := None\<rparr>,
                 vitalsObserversInitialized := False\<rparr>
      in case clearPerformanceCache s1 of
           Inl error \<Rightarrow> Inr s1
         | Inr s2 \<Rightarrow> Inr s2)"

subsection \<open>Example inputs\<close>

text \<open>
  A page with one image of 300000 bytes, one script of 600000 bytes and one stylesheet,
  in a browser that supports every observer; and the same page when the DOM queries throw.
\<close>

definition sampleEnv :: platform where
  "sampleEnv =
     \<lparr>hasPerformanceObserver = True,
      observerSupported = (\<lambda>k. True),
      hasPerformance = True,
      navigationEntries = Inr [\<lparr>responseStart = 150, requestStart = 50\<rparr>],
      resourceEntries =
        Inr [\<lparr>initiatorType = ''img'', transferSize = Some 300000\<rparr>,
             \<lparr>initiatorType = ''script'', transferSize = Some 600000\<rparr>,
             \<lparr>initiatorType = ''css'', transferSize = None\<rparr>],
      querySelectorAllLength = (\<lambda>sel. if sel = ''*'' then Inr 42 else Inr 0),
      numberToString = (\<lambda>x. decimalString (nat \<lfloor>x\<rfloor>))\<rparr>"

definition throwingEnv :: platform where
  "throwingEnv = sampleEnv\<lparr>querySelectorAllLength := (\<lambda>sel. Inl DOMException)\<rparr>"

definition sampleSnapshot :: ExtendedPerformanceMetrics where
  "sampleSnapshot =
     \<lparr>lcp = Some 1200, cls = 0, fid = None, inp = None, ttfb = Some 100,
      totalNodes = 7, totalImages = 1, totalScripts = 0, totalStylesheets = 0,
      warnings = []\<rparr>"

text \<open>The module with \<open>sampleSnapshot\<close> cached at time 1000000.\<close>

definition cachedState :: module_state where
  "cachedState =
     initialState\<lparr>cachedPerformanceMetrics := Some sampleSnapshot,
                   lastMetricsCalculationTime := 1000000\<rparr>"

text \<open>The module after \<^verbatim>\<open>initWebVitals\<close> on the sample page, after a following
  \<^verbatim>\<open>resetWebVitals\<close>, and after a second \<^verbatim>\<open>initWebVitals\<close>.\<close>

definition activeState :: module_state where
  "activeState =
     \<lparr>cachedPerformanceMetrics = None,
      lastMetricsCalculationTime = 0,
      vitalsObserversInitialized = True,
      observedVitals = initialVitals\<lparr>ttfb := Some 100\<rparr>,
      registeredObservers = [LCP, CLS, FID, INP]\<rparr>"

definition resetState :: module_state where
  "resetState =
     \<lparr>cachedPerformanceMetrics = None,
      lastMetricsCalculationTime = 0,
      vitalsObserversInitialized = False,
      observedVitals = initialVitals,
      registeredObservers = [LCP, CLS, FID, INP]\<rparr>"

definition reactivatedState :: module_state where
  "reactivatedState =
     \<lparr>cachedPerformanceMetrics = None,
      lastMetricsCalculationTime = 0,
      vitalsObserversInitialized = True,
      observedVitals = initialVitals\<lparr>ttfb := Some 100\<rparr>,
      registeredObservers = [LCP, CLS, FID, INP, LCP, CLS, FID, INP]\<rparr>"

definition sampleShift :: layout_shift_entry where
  "sampleShift = \<lparr>shiftValue = 1 / 5, hadRecentInput = False\<rparr>"

subsection \<open>Vocabulary of the properties\<close>

text \<open>The layout-shift entries of a batch; a batch of another type has none.\<close>

fun layoutShifts :: "entry_batch \<Rightarrow> layout_shift_entry list" where
  "layoutShifts (ClsBatch entries) = entries"
| "layoutShifts (LcpBatch entries) = []"
| "layoutShifts (FidBatch entries) = []"
| "layoutShifts (InpBatch entries) = []"

text \<open>A store with every vital beyond its threshold.\<close>

definition slowVitals :: PerformanceMetrics where
  "slowVitals =
     \<lparr>lcp = Some 3000, cls = 12345 / 100000, fid = Some 150, inp = Some 250,
      ttfb = Some (8001 / 10)\<rparr>"

text \<open>
  Each of the six warning rules has its own fixed remediation text; it tells which rule a
  warning of a snapshot came from.
\<close>

definition aboutLargeImages :: "PerformanceWarning \<Rightarrow> bool" where
  "aboutLargeImages w =
     (solution w = ''Compress images, convert to WebP/AVIF, use responsive images with srcset, implement lazy loading'')"

definition aboutLayoutStability :: "PerformanceWarning \<Rightarrow> bool" where
  "aboutLayoutStability w =
     (solution w = ''Set explicit width/height on images and ads. Reserve space for dynamic content. Avoid inserting content above existing content'')"

definition aboutServerResponse :: "PerformanceWarning \<Rightarrow> bool" where
  "aboutServerResponse w =
     (solution w = ''Optimize backend queries, use CDN, implement server-side caching, upgrade hosting plan'')"

definition aboutInteractivity :: "PerformanceWarning \<Rightarrow> bool" where
  "aboutInteractivity w =
     (solution w = ''Reduce JavaScript execution time, break up long tasks, use web workers for heavy computation'')"

definition aboutHeavyScripts :: "PerformanceWarning \<Rightarrow> bool" where
  "aboutHeavyScripts w =
     (solution w = ''Code-split bundles, defer non-critical JS, remove unused dependencies, enable compression'')"

text \<open>The image resources above 200000 bytes and the script resources above 500000.\<close>

definition largeImagesOf :: "resource_entry list \<Rightarrow> resource_entry list" where
  "largeImagesOf resources =
     filter (\<lambda>img. transferSizeOr0 img > 200000)
       (filter (\<lambda>r. initiatorType r = ''img'') resources)"

definition largeScriptsOf :: "resource_entry list \<Rightarrow> resource_entry list" where
  "largeScriptsOf resources =
     filter (\<lambda>s. transferSizeOr0 s > 500000)
       (filter (\<lambda>r. initiatorType r = ''script'') resources)"

definition totalBytes :: "resource_entry list \<Rightarrow> nat" where
  "totalBytes rs = sum_list (map transferSizeOr0 rs)"

text \<open>The integer nearest to a non-negative number, the larger one at a tie.\<close>

definition roundHalfUp :: "real \<Rightarrow> nat" where
  "roundHalfUp x = nat \<lfloor>x + 1 / 2\<rfloor>"

text \<open>
  The aggregation ran to its end: \<^verbatim>\<open>window.performance\<close> exists and neither DOM query nor
  the resource-timing read threw.
\<close>

definition aggregationSucceeds :: "platform \<Rightarrow> resource_entry list \<Rightarrow> bool" where
  "aggregationSucceeds env resources =
     (hasPerformance env \<and> resourceEntries env = Inr resources
      \<and> (case querySelectorAllLength env ''*'' of Inl e \<Rightarrow> False | Inr n \<Rightarrow> True)
      \<and> (case querySelectorAllLength env ''img:not([alt])'' of Inl e \<Rightarrow> False | Inr n \<Rightarrow> True))"

text \<open>
  The rule of the specification, in its words: a size in KB is the byte count divided by
  1024 and truncated to an integer.
\<close>

definition specTruncatedKB :: "nat \<Rightarrow> string" where
  "specTruncatedKB bytes = decimalString (bytes div 1024)"

text \<open>The titles of the warnings a call of the aggregator returned.\<close>

definition warningTitles :: "ExtendedPerformanceMetrics js \<Rightarrow> string list" where
  "warningTitles r = (case r of Inl e \<Rightarrow> [] | Inr m \<Rightarrow> map title (warnings m))"

section \<open>Properties\<close>

subsection \<open>The aggregator and the public operations always return\<close>

lemma calculate_total:
  "calculatePerformanceMetrics env v =
     Inr (case calculateTry env v of Inl e \<Rightarrow> getEmptyMetrics
          | Inr m \<Rightarrow> if hasPerformance env then m else getEmptyMetrics)"
  by (simp add: calculatePerformanceMetrics_def split: sum.splits)

lemma calculate_returns: "\<exists>m. calculatePerformanceMetrics env v = Inr m"
  by (simp add: calculate_total)

lemma calculateTry_throws:
  assumes "querySelectorAllLength env ''*'' = Inl e \<or> resourceEntries env = Inl e
           \<or> querySelectorAllLength env ''img:not([alt])'' = Inl e"
  shows "\<exists>e'. calculateTry env v = Inl e'"
  using assms by (auto simp: calculateTry_def Let_def split: sum.splits)

lemma calculate_fallback:
  assumes "querySelectorAllLength env ''*'' = Inl e \<or> resourceEntries env = Inl e
           \<or> querySelectorAllLength env ''img:not([alt])'' = Inl e"
  shows "calculatePerformanceMetrics env v = Inr getEmptyMetrics"
proof -
  obtain e' where "calculateTry env v = Inl e'"
    using calculateTry_throws [OF assms] by blast
  then show ?thesis by (simp add: calculate_total)
qed

lemma getPerformanceMetrics_hit:
  "cachedPerformanceMetrics s = Some c \<Longrightarrow> now - lastMetricsCalculationTime s < 5000
    \<Longrightarrow> getPerformanceMetrics env now s = Inr (c, s)"
  by (simp add: getPerformanceMetrics_def getPerformanceMetricsTry_def calculateAndStore_def
       METRICS_CACHE_DURATION_def)

lemma getPerformanceMetrics_miss:
  assumes "\<not> (\<exists>c. cachedPerformanceMetrics s = Some c \<and> now - lastMetricsCalculationTime s < 5000)"
    and "calculatePerformanceMetrics env (observedVitals s) = Inr m"
  shows "getPerformanceMetrics env now s =
           Inr (m, s\<lparr>cachedPerformanceMetrics := Some m, lastMetricsCalculationTime := now\<rparr>)"
  using assms
  by (cases "cachedPerformanceMetrics s")
     (auto simp: getPerformanceMetrics_def getPerformanceMetricsTry_def calculateAndStore_def
       METRICS_CACHE_DURATION_def)

lemma getPerformanceMetrics_returns: "\<exists>r. getPerformanceMetrics env now s = Inr r"
  by (simp add: getPerformanceMetrics_def split: sum.splits)

lemma initWebVitals_returns: "\<exists>s'. initWebVitals env s = Inr s'"
  by (simp add: initWebVitals_def Let_def)

lemma resetWebVitals_eq:
  "resetWebVitals s =
     Inr (s\<lparr>observedVitals := initialVitals, vitalsObserversInitialized := False,
            cachedPerformanceMetrics := None, lastMetricsCalculationTime := 0\<rparr>)"
  by (simp add: resetWebVitals_def clearPerformanceCache_def initialVitals_def Let_def)

lemma throwing_calc: "calculatePerformanceMetrics throwingEnv v = Inr getEmptyMetrics"
  by (rule calculate_fallback [where e = DOMException])
     (simp add: throwingEnv_def sampleEnv_def)

subsection \<open>C1: the five-second cache window\<close>

text \<open>
  Claim C1. A call of \<^verbatim>\<open>getPerformanceMetrics\<close> at time \<open>now\<close>: when a snapshot is cached and
  \<open>now\<close> minus the time it was stored is below 5000, the call returns that snapshot and
  leaves every module variable as it was, whatever the browser would have answered (the
  aggregator is not run); otherwise the aggregator runs, its result is stored with the time
  \<open>now\<close>, and that result is returned.
\<close>

theorem getPerformanceMetrics_cache_window:
  "(cachedPerformanceMetrics s = Some c \<and> now - lastMetricsCalculationTime s < 5000
      \<longrightarrow> (\<forall>env'. getPerformanceMetrics env' now s = Inr (c, s)))
   \<and> (\<not> (\<exists>c'. cachedPerformanceMetrics s = Some c' \<and> now - lastMetricsCalculationTime s < 5000)
      \<longrightarrow> (\<exists>m. calculatePerformanceMetrics env (observedVitals s) = Inr m
             \<and> getPerformanceMetrics env now s =
                 Inr (m, s\<lparr>cachedPerformanceMetrics := Some m,
                            lastMetricsCalculationTime := now\<rparr>)))"
proof (intro conjI impI allI)
  fix env'
  assume "cachedPerformanceMetrics s = Some c \<and> now - lastMetricsCalculationTime s < 5000"
  then show "getPerformanceMetrics env' now s = Inr (c, s)"
    by (simp add: getPerformanceMetrics_hit)
next
  assume miss: "\<not> (\<exists>c'. cachedPerformanceMetrics s = Some c'
                         \<and> now - lastMetricsCalculationTime s < 5000)"
  obtain m where "calculatePerformanceMetrics env (observedVitals s) = Inr m"
    using calculate_returns by blast
  with miss show "\<exists>m. calculatePerformanceMetrics env (observedVitals s) = Inr m
             \<and> getPerformanceMetrics env now s =
                 Inr (m, s\<lparr>cachedPerformanceMetrics := Some m,
                            lastMetricsCalculationTime := now\<rparr>)"
    using getPerformanceMetrics_miss by blast
qed

text \<open>
  With a snapshot cached at 1000000: a call at 1004999 returns it although the DOM queries
  would throw; a call at 1005001 runs the aggregator.
\<close>

theorem getPerformanceMetrics_cache_window_witness:
  "cachedPerformanceMetrics cachedState = Some sampleSnapshot
   \<and> 1004999 - lastMetricsCalculationTime cachedState < 5000
   \<and> getPerformanceMetrics throwingEnv 1004999 cachedState = Inr (sampleSnapshot, cachedState)
   \<and> \<not> (\<exists>c'. cachedPerformanceMetrics cachedState = Some c'
              \<and> 1005001 - lastMetricsCalculationTime cachedState < 5000)
   \<and> getPerformanceMetrics throwingEnv 1005001 cachedState =
       Inr (getEmptyMetrics, cachedState\<lparr>cachedPerformanceMetrics := Some getEmptyMetrics,
                                          lastMetricsCalculationTime := 1005001\<rparr>)"
  using getPerformanceMetrics_cache_window [of cachedState sampleSnapshot 1004999 throwingEnv]
        getPerformanceMetrics_cache_window [of cachedState sampleSnapshot 1005001 throwingEnv]
  by (simp add: cachedState_def initialState_def throwing_calc)

subsection \<open>C2: the fallback snapshot, and no exception leaves the module\<close>

text \<open>
  Claim C2. When a DOM query or the resource-timing read throws during aggregation,
  \<^verbatim>\<open>calculatePerformanceMetrics\<close> returns the fallback snapshot, and so does
  \<^verbatim>\<open>getPerformanceMetrics\<close> when it runs the aggregator; the fallback has no LCP, FID, INP
  or TTFB, a CLS of 0, four counts of 0 and no warnings. Each of the four public operations
  returns a value in every state and for every browser: none of them throws.
\<close>

theorem fallback_and_no_exception:
  "((querySelectorAllLength env ''*'' = Inl e \<or> resourceEntries env = Inl e
       \<or> querySelectorAllLength env ''img:not([alt])'' = Inl e)
      \<longrightarrow> calculatePerformanceMetrics env v = Inr getEmptyMetrics
          \<and> (\<not> (\<exists>c. cachedPerformanceMetrics s = Some c
                     \<and> now - lastMetricsCalculationTime s < 5000)
              \<longrightarrow> (\<exists>s'. getPerformanceMetrics env now s = Inr (getEmptyMetrics, s'))))
   \<and> lcp getEmptyMetrics = None \<and> fid getEmptyMetrics = None \<and> inp getEmptyMetrics = None
   \<and> ttfb getEmptyMetrics = None \<and> cls getEmptyMetrics = 0
   \<and> totalNodes getEmptyMetrics = 0 \<and> totalImages getEmptyMetrics = 0
   \<and> totalScripts getEmptyMetrics = 0 \<and> totalStylesheets getEmptyMetrics = 0
   \<and> warnings getEmptyMetrics = []
   \<and> (\<exists>m. calculatePerformanceMetrics env v = Inr m)
   \<and> (\<exists>r. getPerformanceMetrics env now s = Inr r)
   \<and> (\<exists>s'. initWebVitals env s = Inr s')
   \<and> (\<exists>s'. clearPerformanceCache s = Inr s')
   \<and> (\<exists>s'. resetWebVitals s = Inr s')"
proof -
  have fallback:
    "calculatePerformanceMetrics env v = Inr getEmptyMetrics
     \<and> (\<not> (\<exists>c. cachedPerformanceMetrics s = Some c
                \<and> now - lastMetricsCalculationTime s < 5000)
         \<longrightarrow> (\<exists>s'. getPerformanceMetrics env now s = Inr (getEmptyMetrics, s')))"
    if throws: "querySelectorAllLength env ''*'' = Inl e \<or> resourceEntries env = Inl e
                \<or> querySelectorAllLength env ''img:not([alt])'' = Inl e"
  proof (intro conjI impI)
    show "calculatePerformanceMetrics env v = Inr getEmptyMetrics"
      by (rule calculate_fallback [OF throws])
  next
    assume miss: "\<not> (\<exists>c. cachedPerformanceMetrics s = Some c
                          \<and> now - lastMetricsCalculationTime s < 5000)"
    have "calculatePerformanceMetrics env (observedVitals s) = Inr getEmptyMetrics"
      by (rule calculate_fallback [OF throws])
    from getPerformanceMetrics_miss [OF miss this]
    show "\<exists>s'. getPerformanceMetrics env now s = Inr (getEmptyMetrics, s')"
      by blast
  qed
  have fields:
    "lcp getEmptyMetrics = None \<and> fid getEmptyMetrics = None \<and> inp getEmptyMetrics = None
     \<and> ttfb getEmptyMetrics = None \<and> cls getEmptyMetrics = 0
     \<and> totalNodes getEmptyMetrics = 0 \<and> totalImages getEmptyMetrics = 0
     \<and> totalScripts getEmptyMetrics = 0 \<and> totalStylesheets getEmptyMetrics = 0
     \<and> warnings getEmptyMetrics = []"
    by (simp add: getEmptyMetrics_def)
  have clear: "\<exists>s'. clearPerformanceCache s = Inr s'"
    by (simp add: clearPerformanceCache_def)
  have reset: "\<exists>s'. resetWebVitals s = Inr s'"
    by (simp add: resetWebVitals_eq)
  from fallback fields calculate_returns [of env v] getPerformanceMetrics_returns [of env now s]
       initWebVitals_returns [of env s] clear reset
  show ?thesis by blast
qed

text \<open>The DOM queries throw on a first call, with nothing cached.\<close>

theorem fallback_and_no_exception_witness:
  "querySelectorAllLength throwingEnv ''*'' = Inl DOMException
   \<and> calculatePerformanceMetrics throwingEnv initialVitals = Inr getEmptyMetrics
   \<and> \<not> (\<exists>c. cachedPerformanceMetrics initialState = Some c
             \<and> 777 - lastMetricsCalculationTime initialState < 5000)
   \<and> (\<exists>s'. getPerformanceMetrics throwingEnv 777 initialState = Inr (getEmptyMetrics, s'))"
  using fallback_and_no_exception [of throwingEnv DOMException initialVitals initialState 777]
  by (simp add: throwingEnv_def sampleEnv_def initialState_def)

subsection \<open>C10: a fallback snapshot is cached like any other\<close>

text \<open>
  Claim C10. When the aggregator runs and falls back because a query throws,
  \<^verbatim>\<open>getPerformanceMetrics\<close> stores the fallback snapshot with the time of the call; every call
  less than 5000 ms later returns the fallback again without running the aggregator,
  whatever the browser would answer by then.
\<close>

theorem fallback_is_cached:
  assumes "querySelectorAllLength env ''*'' = Inl e \<or> resourceEntries env = Inl e
           \<or> querySelectorAllLength env ''img:not([alt])'' = Inl e"
    and "\<not> (\<exists>c. cachedPerformanceMetrics s = Some c
                \<and> now - lastMetricsCalculationTime s < 5000)"
    and "s1 = s\<lparr>cachedPerformanceMetrics := Some getEmptyMetrics,
                lastMetricsCalculationTime := now\<rparr>"
  shows "getPerformanceMetrics env now s = Inr (getEmptyMetrics, s1)
         \<and> (\<forall>env' later. later - now < 5000
               \<longrightarrow> getPerformanceMetrics env' later s1 = Inr (getEmptyMetrics, s1))"
proof (intro conjI allI impI)
  have "calculatePerformanceMetrics env (observedVitals s) = Inr getEmptyMetrics"
    by (rule calculate_fallback [OF assms(1)])
  from getPerformanceMetrics_miss [OF assms(2) this]
  show "getPerformanceMetrics env now s = Inr (getEmptyMetrics, s1)"
    by (simp add: assms(3))
next
  fix env' :: platform and later :: int
  assume "later - now < 5000"
  then show "getPerformanceMetrics env' later s1 = Inr (getEmptyMetrics, s1)"
    by (intro getPerformanceMetrics_hit) (simp_all add: assms(3))
qed

text \<open>
  The queries throw at time 1000; at 5999 the page answers again (\<open>sampleEnv\<close>), and the call
  still returns the fallback.
\<close>

theorem fallback_is_cached_witness:
  "querySelectorAllLength throwingEnv ''*'' = Inl DOMException
   \<and> \<not> (\<exists>c. cachedPerformanceMetrics initialState = Some c
             \<and> 1000 - lastMetricsCalculationTime initialState < 5000)
   \<and> getPerformanceMetrics throwingEnv 1000 initialState =
       Inr (getEmptyMetrics,
            initialState\<lparr>cachedPerformanceMetrics := Some getEmptyMetrics,
                          lastMetricsCalculationTime := 1000\<rparr>)
   \<and> getPerformanceMetrics sampleEnv 5999
       (initialState\<lparr>cachedPerformanceMetrics := Some getEmptyMetrics,
                      lastMetricsCalculationTime := 1000\<rparr>) =
       Inr (getEmptyMetrics,
            initialState\<lparr>cachedPerformanceMetrics := Some getEmptyMetrics,
                          lastMetricsCalculationTime := 1000\<rparr>)"
  using fallback_is_cached [of throwingEnv DOMException initialState 1000
          "initialState\<lparr>cachedPerformanceMetrics := Some getEmptyMetrics,
                         lastMetricsCalculationTime := 1000\<rparr>"]
  by (simp add: throwingEnv_def sampleEnv_def initialState_def)

subsection \<open>C7: resetWebVitals\<close>

text \<open>
  Claim C7. \<^verbatim>\<open>resetWebVitals\<close> returns with the five store fields at \<^verbatim>\<open>null\<close> or 0, the
  initialisation flag cleared and nothing cached. The next \<^verbatim>\<open>getPerformanceMetrics\<close>, at
  any time and for any browser, runs the aggregator on the cleared store, so its snapshot
  has no LCP, FID, INP or TTFB and a CLS of 0, and is the one that is cached.
\<close>

theorem resetWebVitals_clears:
  "\<exists>s'. resetWebVitals s = Inr s'
     \<and> lcp (observedVitals s') = None \<and> cls (observedVitals s') = 0
     \<and> fid (observedVitals s') = None \<and> inp (observedVitals s') = None
     \<and> ttfb (observedVitals s') = None
     \<and> \<not> vitalsObserversInitialized s'
     \<and> cachedPerformanceMetrics s' = None
     \<and> (\<forall>env now. \<exists>m.
            calculatePerformanceMetrics env initialVitals = Inr m
          \<and> getPerformanceMetrics env now s' =
              Inr (m, s'\<lparr>cachedPerformanceMetrics := Some m,
                          lastMetricsCalculationTime := now\<rparr>)
          \<and> lcp m = None \<and> cls m = 0 \<and> fid m = None \<and> inp m = None \<and> ttfb m = None)"
proof -
  define s' where "s' = s\<lparr>observedVitals := initialVitals, vitalsObserversInitialized := False,
            cachedPerformanceMetrics := None, lastMetricsCalculationTime := 0\<rparr>"
  have r: "resetWebVitals s = Inr s'"
    by (simp add: resetWebVitals_eq s'_def)
  have v: "observedVitals s' = initialVitals" and c: "cachedPerformanceMetrics s' = None"
    and f: "\<not> vitalsObserversInitialized s'"
    by (simp_all add: s'_def)
  have g: "\<exists>m. calculatePerformanceMetrics env initialVitals = Inr m
          \<and> getPerformanceMetrics env now s' =
              Inr (m, s'\<lparr>cachedPerformanceMetrics := Some m,
                          lastMetricsCalculationTime := now\<rparr>)
          \<and> lcp m = None \<and> cls m = 0 \<and> fid m = None \<and> inp m = None \<and> ttfb m = None"
    for env now
  proof -
    obtain m where m: "calculatePerformanceMetrics env initialVitals = Inr m"
      using calculate_returns by blast
    have miss: "\<not> (\<exists>c. cachedPerformanceMetrics s' = Some c
                        \<and> now - lastMetricsCalculationTime s' < 5000)"
      by (simp add: c)
    have get: "getPerformanceMetrics env now s' =
              Inr (m, s'\<lparr>cachedPerformanceMetrics := Some m,
                          lastMetricsCalculationTime := now\<rparr>)"
      using getPerformanceMetrics_miss [OF miss] m by (simp add: v)
    have "lcp m = None \<and> cls m = 0 \<and> fid m = None \<and> inp m = None \<and> ttfb m = None"
      using m
      by (auto simp: calculate_total calculateTry_def Let_def initialVitals_def
            getEmptyMetrics_def split: sum.splits if_splits)
    with m get show ?thesis by blast
  qed
  from r v c f g show ?thesis
    by (intro exI [of _ s']) (simp add: initialVitals_def)
qed

text \<open>
  A store with vitals and a cached snapshot from before the reset: the call after the reset
  does not return \<open>sampleSnapshot\<close>.
\<close>

theorem resetWebVitals_clears_witness:
  "\<exists>s'. resetWebVitals (cachedState\<lparr>observedVitals := initialVitals\<lparr>lcp := Some 1200, cls := 1 / 4\<rparr>,
                                     vitalsObserversInitialized := True\<rparr>) = Inr s'
     \<and> observedVitals s' = initialVitals
     \<and> \<not> vitalsObserversInitialized s'
     \<and> cachedPerformanceMetrics s' = None
     \<and> (\<exists>m. getPerformanceMetrics throwingEnv 1000001 s' =
              Inr (m, s'\<lparr>cachedPerformanceMetrics := Some m,
                          lastMetricsCalculationTime := 1000001\<rparr>)
            \<and> m \<noteq> sampleSnapshot \<and> lcp m = None \<and> cls m = 0)"
proof -
  let ?s = "cachedState\<lparr>observedVitals := initialVitals\<lparr>lcp := Some 1200, cls := 1 / 4\<rparr>,
                        vitalsObserversInitialized := True\<rparr>"
  obtain s' where r: "resetWebVitals ?s = Inr s'"
    and rest: "\<not> vitalsObserversInitialized s'" "cachedPerformanceMetrics s' = None"
    and get: "\<forall>env now. \<exists>m.
            calculatePerformanceMetrics env initialVitals = Inr m
          \<and> getPerformanceMetrics env now s' =
              Inr (m, s'\<lparr>cachedPerformanceMetrics := Some m,
                          lastMetricsCalculationTime := now\<rparr>)
          \<and> lcp m = None \<and> cls m = 0 \<and> fid m = None \<and> inp m = None \<and> ttfb m = None"
    using resetWebVitals_clears [of ?s] by blast
  from get obtain m where m:
    "getPerformanceMetrics throwingEnv 1000001 s' =
       Inr (m, s'\<lparr>cachedPerformanceMetrics := Some m, lastMetricsCalculationTime := 1000001\<rparr>)"
    "lcp m = None" "cls m = 0"
    by blast
  from m(2) have "m \<noteq> sampleSnapshot"
    by (auto simp: sampleSnapshot_def)
  moreover from r have "observedVitals s' = initialVitals"
    by (auto simp: resetWebVitals_eq)
  ultimately show ?thesis
    using r rest m by blast
qed

subsection \<open>Observers and delivered entries\<close>

lemma cls_clsCallback:
  "cls (clsCallback es v) =
     cls v + sum_list (map shiftValue (filter (\<lambda>e. \<not> hadRecentInput e) es))"
  unfolding clsCallback_def
  by (induction es arbitrary: v) (simp_all add: clsStep_def)

lemma cls_inpCallback: "cls (inpCallback es v) = cls v"
  unfolding inpCallback_def
  by (induction es arbitrary: v) (simp_all add: inpStep_def split: option.splits)

lemma cls_runCallback:
  "cls (runCallback b v) =
     cls v + sum_list (map shiftValue (filter (\<lambda>e. \<not> hadRecentInput e) (layoutShifts b)))"
  by (cases b)
     (simp_all add: cls_clsCallback cls_inpCallback lcpCallback_def fidCallback_def Let_def
        split: list.splits)

lemma layoutShifts_other: "batchKind b \<noteq> CLS \<Longrightarrow> layoutShifts b = []"
  by (cases b) simp_all

lemma cls_observerCallback:
  "cls (observerCallback k b v) =
     cls v + (if k = CLS
              then sum_list (map shiftValue (filter (\<lambda>e. \<not> hadRecentInput e) (layoutShifts b)))
              else 0)"
proof (cases "k = batchKind b")
  case True
  then show ?thesis
    by (cases "k = CLS") (simp_all add: observerCallback_def cls_runCallback layoutShifts_other)
next
  case False
  then show ?thesis
    by (cases "k = CLS") (simp_all add: observerCallback_def layoutShifts_other)
qed

lemma cls_fold_observers:
  "cls (fold (\<lambda>k v. observerCallback k b v) ks v) =
     cls v + real (count_list ks CLS)
             * sum_list (map shiftValue (filter (\<lambda>e. \<not> hadRecentInput e) (layoutShifts b)))"
  by (induction ks arbitrary: v) (simp_all add: cls_observerCallback algebra_simps)

lemma cls_deliver:
  "cls (observedVitals (deliver b s)) =
     cls (observedVitals s) + real (count_list (registeredObservers s) CLS)
       * sum_list (map shiftValue (filter (\<lambda>e. \<not> hadRecentInput e) (layoutShifts b)))"
  by (simp add: deliver_def cls_fold_observers)

lemma registeredObservers_deliver [simp]:
  "registeredObservers (deliver b s) = registeredObservers s"
  by (simp add: deliver_def)

lemma cls_fold_deliver:
  "cls (observedVitals (fold deliver bs s)) =
     cls (observedVitals s) + real (count_list (registeredObservers s) CLS)
       * sum_list (map shiftValue
           (filter (\<lambda>e. \<not> hadRecentInput e) (concat (map layoutShifts bs))))"
proof (induction bs arbitrary: s)
  case Nil
  show ?case by simp
next
  case (Cons b bs)
  show ?case
    by (simp add: Cons.IH cls_deliver algebra_simps)
qed

lemma registeredObservers_tryObserve:
  "registeredObservers (tryObserve env k s) =
     registeredObservers s @ (if observerSupported env k then [k] else [])"
  by (simp add: tryObserve_def observe_def)

lemma vitals_tryObserve [simp]: "observedVitals (tryObserve env k s) = observedVitals s"
  by (simp add: tryObserve_def observe_def)

lemma flag_tryObserve [simp]:
  "vitalsObserversInitialized (tryObserve env k s) = vitalsObserversInitialized s"
  by (simp add: tryObserve_def observe_def)

lemma tryTtfb_fields [simp]:
  "registeredObservers (tryTtfb env s) = registeredObservers s"
  "vitalsObserversInitialized (tryTtfb env s) = vitalsObserversInitialized s"
  "cls (observedVitals (tryTtfb env s)) = cls (observedVitals s)"
  by (simp_all add: tryTtfb_def split: sum.splits option.splits)

lemma initWebVitals_noop:
  "vitalsObserversInitialized s \<Longrightarrow> initWebVitals env s = Inr s"
  by (simp add: initWebVitals_def)

lemma initWebVitals_unavailable:
  "\<not> hasPerformanceObserver env \<Longrightarrow> initWebVitals env s = Inr s"
  by (simp add: initWebVitals_def)

lemma initWebVitals_runs:
  assumes "\<not> vitalsObserversInitialized s" "hasPerformanceObserver env"
    and "initWebVitals env s = Inr s1"
  shows "vitalsObserversInitialized s1"
    and "registeredObservers s1 =
           registeredObservers s @ filter (observerSupported env) [LCP, CLS, FID, INP]"
    and "cls (observedVitals s1) = cls (observedVitals s)"
  using assms
  by (auto simp: initWebVitals_def Let_def registeredObservers_tryObserve)

lemma initWebVitals_twice:
  assumes "initWebVitals env s = Inr s1"
  shows "initWebVitals env s1 = Inr s1"
proof (cases "vitalsObserversInitialized s \<or> \<not> hasPerformanceObserver env")
  case True
  with assms have "s1 = s"
    by (auto simp: initWebVitals_noop initWebVitals_unavailable)
  with True show ?thesis
    by (auto simp: initWebVitals_noop initWebVitals_unavailable)
next
  case False
  with assms have "vitalsObserversInitialized s1"
    using initWebVitals_runs(1) by blast
  then show ?thesis by (rule initWebVitals_noop)
qed

lemma distinct_supported: "distinct (filter P [LCP, CLS, FID, INP])"
  by simp

lemma count_supported:
  "count_list (filter P [LCP, CLS, FID, INP]) CLS = (if P CLS then 1 else 0)"
  by simp

lemma init_sample: "initWebVitals sampleEnv initialState = Inr activeState"
  by (simp add: initWebVitals_def sampleEnv_def initialState_def activeState_def Let_def
      tryObserve_def observe_def tryTtfb_def firstNavigationEntry_def)

subsection \<open>C3: the CLS listener sums the shifts without recent input\<close>

text \<open>
  Claim C3. After \<^verbatim>\<open>initWebVitals\<close> on the freshly loaded module, in a browser that
  supports the layout-shift observer, the store's \<open>cls\<close> is 0; after the browser has
  delivered any sequence of batches, \<open>cls\<close> is the sum of the values of the delivered
  layout-shift entries whose \<open>hadRecentInput\<close> is false. Entries with the flag set, and
  batches of the other entry types, add nothing.
\<close>

theorem cls_is_sum_of_shifts:
  assumes "hasPerformanceObserver env" and "observerSupported env CLS"
    and "initWebVitals env initialState = Inr s0"
  shows "cls (observedVitals s0) = 0
         \<and> cls (observedVitals (fold deliver batches s0)) =
             sum_list (map shiftValue
               (filter (\<lambda>e. \<not> hadRecentInput e) (concat (map layoutShifts batches))))"
proof -
  have fresh: "\<not> vitalsObserversInitialized initialState"
    by (simp add: initialState_def)
  have obs: "registeredObservers s0 = filter (observerSupported env) [LCP, CLS, FID, INP]"
    using initWebVitals_runs(2) [OF fresh assms(1) assms(3)]
    by (simp add: initialState_def)
  have one: "count_list (registeredObservers s0) CLS = 1"
    unfolding obs count_supported using assms(2) by simp
  have zero: "cls (observedVitals s0) = 0"
    using initWebVitals_runs(3) [OF fresh assms(1) assms(3)]
    by (simp add: initialState_def initialVitals_def)
  show ?thesis
    by (simp add: zero cls_fold_deliver one)
qed

text \<open>
  Two batches of layout shifts around a batch of events: 0.2 and 0.05 count, the shift of
  0.5 that follows an input does not.
\<close>

theorem cls_is_sum_of_shifts_witness:
  "hasPerformanceObserver sampleEnv \<and> observerSupported sampleEnv CLS
   \<and> initWebVitals sampleEnv initialState = Inr activeState
   \<and> cls (observedVitals
        (fold deliver
           [ClsBatch [sampleShift, \<lparr>shiftValue = 1 / 2, hadRecentInput = True\<rparr>],
            InpBatch [\<lparr>duration = 90\<rparr>],
            ClsBatch [\<lparr>shiftValue = 1 / 20, hadRecentInput = False\<rparr>]]
           activeState)) = 1 / 4"
  using cls_is_sum_of_shifts [of sampleEnv activeState
          "[ClsBatch [sampleShift, \<lparr>shiftValue = 1 / 2, hadRecentInput = True\<rparr>],
            InpBatch [\<lparr>duration = 90\<rparr>],
            ClsBatch [\<lparr>shiftValue = 1 / 20, hadRecentInput = False\<rparr>]]"]
  by (simp add: init_sample sampleShift_def) (simp add: sampleEnv_def)

subsection \<open>C6: initWebVitals is idempotent\<close>

text \<open>
  Claim C6. \<^verbatim>\<open>initWebVitals\<close> returns at once when the flag is set, so a second call in
  succession changes nothing. After two calls on the freshly loaded module each supported
  observer is registered once, and one delivered layout-shift entry without recent input
  adds its value to \<open>cls\<close> once.
\<close>

theorem initWebVitals_idempotent:
  "(vitalsObserversInitialized s \<longrightarrow> initWebVitals env s = Inr s)
   \<and> (initWebVitals env s = Inr s1 \<longrightarrow> initWebVitals env s1 = Inr s1)
   \<and> (hasPerformanceObserver env \<and> initWebVitals env initialState = Inr s1
        \<and> initWebVitals env s1 = Inr s2
      \<longrightarrow> registeredObservers s2 = filter (observerSupported env) [LCP, CLS, FID, INP]
          \<and> distinct (registeredObservers s2)
          \<and> cls (observedVitals (deliver (ClsBatch [entry]) s2)) =
              (if observerSupported env CLS \<and> \<not> hadRecentInput entry
               then shiftValue entry else 0))"
proof (intro conjI impI)
  assume "vitalsObserversInitialized s"
  then show "initWebVitals env s = Inr s" by (rule initWebVitals_noop)
next
  assume "initWebVitals env s = Inr s1"
  then show "initWebVitals env s1 = Inr s1" by (rule initWebVitals_twice)
next
  assume a: "hasPerformanceObserver env \<and> initWebVitals env initialState = Inr s1
        \<and> initWebVitals env s1 = Inr s2"
  then have "initWebVitals env s1 = Inr s1"
    using initWebVitals_twice by blast
  with a have same: "s2 = s1" by simp
  have fresh: "\<not> vitalsObserversInitialized initialState"
    by (simp add: initialState_def)
  from a have po: "hasPerformanceObserver env"
    and i: "initWebVitals env initialState = Inr s1" by simp_all
  have obs: "registeredObservers s2 = filter (observerSupported env) [LCP, CLS, FID, INP]"
    using initWebVitals_runs(2) [OF fresh po i] same
    by (simp add: initialState_def)
  have zero: "cls (observedVitals s2) = 0"
    using initWebVitals_runs(3) [OF fresh po i] same
    by (simp add: initialState_def initialVitals_def)
  show "registeredObservers s2 = filter (observerSupported env) [LCP, CLS, FID, INP]"
    by (rule obs)
  show "distinct (registeredObservers s2)"
    unfolding obs by (rule distinct_supported)
  show "cls (observedVitals (deliver (ClsBatch [entry]) s2)) =
          (if observerSupported env CLS \<and> \<not> hadRecentInput entry
           then shiftValue entry else 0)"
    unfolding cls_deliver zero obs count_supported by simp
qed

theorem initWebVitals_idempotent_witness:
  "vitalsObserversInitialized activeState
   \<and> initWebVitals sampleEnv initialState = Inr activeState
   \<and> initWebVitals sampleEnv activeState = Inr activeState
   \<and> registeredObservers activeState = [LCP, CLS, FID, INP]
   \<and> cls (observedVitals (deliver (ClsBatch [sampleShift]) activeState)) = 1 / 5"
  using initWebVitals_idempotent
          [of activeState sampleEnv activeState activeState sampleShift]
        init_sample
  by (simp add: activeState_def sampleShift_def sampleEnv_def)

subsection \<open>C8: what resetWebVitals leaves behind\<close>

text \<open>
  Claim C8 says that after the reset no observer registered before it changes the store.
  \<^verbatim>\<open>resetWebVitals\<close> clears the flag and the store but does not disconnect the observers:
  the four observers of the first activation are still registered after it, a layout shift
  of 0.2 delivered then is added to \<open>cls\<close>, and after a second \<^verbatim>\<open>initWebVitals\<close> there
  are two observers of each type and the same shift is added twice.
\<close>

theorem resetWebVitals_leaves_observers:
  "initWebVitals sampleEnv initialState = Inr activeState
   \<and> resetWebVitals activeState = Inr resetState
   \<and> registeredObservers resetState = [LCP, CLS, FID, INP]
   \<and> cls (observedVitals resetState) = 0
   \<and> cls (observedVitals (deliver (ClsBatch [sampleShift]) resetState)) = 1 / 5
   \<and> initWebVitals sampleEnv resetState = Inr reactivatedState
   \<and> cls (observedVitals (deliver (ClsBatch [sampleShift]) reactivatedState)) = 2 / 5"
proof (intro conjI)
  show "initWebVitals sampleEnv initialState = Inr activeState"
    by (rule init_sample)
  show "resetWebVitals activeState = Inr resetState"
    by (simp add: resetWebVitals_eq activeState_def resetState_def)
  show "registeredObservers resetState = [LCP, CLS, FID, INP]"
    by (simp add: resetState_def)
  show "cls (observedVitals resetState) = 0"
    by (simp add: resetState_def initialVitals_def)
  show "cls (observedVitals (deliver (ClsBatch [sampleShift]) resetState)) = 1 / 5"
    by (simp add: cls_deliver resetState_def initialVitals_def sampleShift_def)
  show "initWebVitals sampleEnv resetState = Inr reactivatedState"
    by (simp add: initWebVitals_def sampleEnv_def resetState_def reactivatedState_def Let_def
        tryObserve_def observe_def tryTtfb_def firstNavigationEntry_def)
  show "cls (observedVitals (deliver (ClsBatch [sampleShift]) reactivatedState)) = 2 / 5"
    by (simp add: cls_deliver reactivatedState_def initialVitals_def sampleShift_def)
qed

subsection \<open>Number formatting\<close>

lemma decimalString_nonempty: "decimalString n \<noteq> []"
  by (subst decimalString.simps) simp

lemma decimalString_digit: "n < 10 \<Longrightarrow> decimalString n = [digitChar n]"
  by (subst decimalString.simps) simp

lemma decimalString_step:
  "10 \<le> n \<Longrightarrow> decimalString n = decimalString (n div 10) @ [digitChar (n mod 10)]"
  by (subst decimalString.simps) simp

lemma toFixed_0:
  assumes "0 \<le> x" "x < 10 ^ 21"
  shows "toFixed numStr x 0 = decimalString (roundHalfUp x)"
  using assms by (simp add: toFixed_def Let_def roundHalfUp_def)

lemma decimalString_last3:
  assumes "1000 \<le> n"
  shows "decimalString n =
           decimalString (n div 1000)
           @ [digitChar (n div 100 mod 10), digitChar (n div 10 mod 10), digitChar (n mod 10)]"
proof -
  have a: "decimalString n = decimalString (n div 10) @ [digitChar (n mod 10)]"
    using assms by (intro decimalString_step) simp
  have b: "decimalString (n div 10) =
             decimalString (n div 100) @ [digitChar (n div 10 mod 10)]"
    using assms decimalString_step [of "n div 10"] by (simp add: div_mult2_eq [symmetric])
  have c: "decimalString (n div 100) =
             decimalString (n div 1000) @ [digitChar (n div 100 mod 10)]"
    using assms decimalString_step [of "n div 100"] by (simp add: div_mult2_eq [symmetric])
  show ?thesis by (simp add: a b c)
qed

lemma toFixed_3:
  assumes "0 \<le> x" "x < 10 ^ 21" and "n = roundHalfUp (x * 1000)"
  shows "toFixed numStr x 3 =
           decimalString (n div 1000) @ ''.''
           @ [digitChar (n div 100 mod 10), digitChar (n div 10 mod 10), digitChar (n mod 10)]"
proof -
  let ?m = "decimalString n"
  let ?m1 = "if length ?m \<le> 3 then replicate (3 + 1 - length ?m) CHR ''0'' @ ?m else ?m"
  have tf: "toFixed numStr x 3 =
              take (length ?m1 - 3) ?m1 @ ''.'' @ drop (length ?m1 - 3) ?m1"
    using assms by (simp add: toFixed_def Let_def roundHalfUp_def)
  have zero: "CHR ''0'' = digitChar 0" by (simp add: digitChar_def)
  consider "n < 10" | "10 \<le> n" "n < 100" | "100 \<le> n" "n < 1000" | "1000 \<le> n"
    by linarith
  then have "take (length ?m1 - 3) ?m1 = decimalString (n div 1000)
             \<and> drop (length ?m1 - 3) ?m1 =
                 [digitChar (n div 100 mod 10), digitChar (n div 10 mod 10), digitChar (n mod 10)]"
  proof cases
    case 1
    then show ?thesis
      by (simp add: decimalString_digit zero numeral_3_eq_3)
  next
    case 2
    then have "?m = [digitChar (n div 10), digitChar (n mod 10)]"
      by (simp add: decimalString_step decimalString_digit)
    with 2 show ?thesis
      by (simp add: decimalString_digit zero numeral_2_eq_2)
  next
    case 3
    then have d: "n div 10 \<ge> 10" "n div 10 div 10 < 10" by simp_all
    from 3 have "?m = [digitChar (n div 100), digitChar (n div 10 mod 10), digitChar (n mod 10)]"
      using d by (simp add: decimalString_step decimalString_digit div_mult2_eq [symmetric])
    with 3 show ?thesis
      by (simp add: decimalString_digit zero)
  next
    case 4
    have ne: "length (decimalString (n div 1000)) > 0"
      using decimalString_nonempty by simp
    show ?thesis
      using ne by (simp add: decimalString_last3 [OF 4])
  qed
  with tf show ?thesis by simp
qed

lemma fold_transferSize:
  "fold (\<lambda>r sum. sum + transferSizeOr0 r) rs a = a + totalBytes rs"
  unfolding totalBytes_def by (induction rs arbitrary: a) simp_all

subsection \<open>The warnings of a successful aggregation\<close>

lemma calculate_success:
  assumes "aggregationSucceeds env resources"
    and "calculatePerformanceMetrics env v = Inr m"
  shows "\<exists>noAlt. warnings m =
           largeImagesWarning (numberToString env) (exceeds (lcp v) 2500)
             (filter (\<lambda>r. initiatorType r = ''img'') resources)
           @ layoutStabilityWarning (numberToString env) v
           @ slowServerWarning (numberToString env) v
           @ interactivityWarning (numberToString env) v
           @ heavyScriptsWarning (numberToString env) (exceeds (lcp v) 2500)
               (filter (\<lambda>r. initiatorType r = ''script'') resources)
           @ missingAltWarning noAlt"
  using assms
  by (auto simp: aggregationSucceeds_def calculate_total calculateTry_def Let_def
        split: sum.splits)

lemma largeImagesWarning_eq:
  "largeImagesWarning numStr bad (filter (\<lambda>r. initiatorType r = ''img'') resources) =
     (if bad \<and> largeImagesOf resources \<noteq> [] then
        [\<lparr>title = decimalString (length (largeImagesOf resources))
                  @ '' large images detected (avg ''
                  @ toFixed numStr
                      (real (totalBytes (largeImagesOf resources))
                         / real (length (largeImagesOf resources)) / 1024) 0
                  @ ''KB)'',
          solution = ''Compress images, convert to WebP/AVIF, use responsive images with srcset, implement lazy loading'',
          severity = High\<rparr>]
      else [])"
  by (simp add: largeImagesWarning_def largeImagesOf_def Let_def fold_transferSize)

lemma heavyScriptsWarning_eq:
  "heavyScriptsWarning numStr bad (filter (\<lambda>r. initiatorType r = ''script'') resources) =
     (if bad \<and> largeScriptsOf resources \<noteq> [] then
        [\<lparr>title = ''Heavy JavaScript detected (''
                  @ toFixed numStr (real (totalBytes (largeScriptsOf resources)) / 1024) 0
                  @ ''KB across '' @ decimalString (length (largeScriptsOf resources))
                  @ '' files)'',
          solution = ''Code-split bundles, defer non-critical JS, remove unused dependencies, enable compression'',
          severity = Medium\<rparr>]
      else [])"
  by (simp add: heavyScriptsWarning_def largeScriptsOf_def Let_def fold_transferSize)

lemma filter_aboutLargeImages:
  "filter aboutLargeImages (layoutStabilityWarning numStr v) = []"
  "filter aboutLargeImages (slowServerWarning numStr v) = []"
  "filter aboutLargeImages (interactivityWarning numStr v) = []"
  "filter aboutLargeImages (heavyScriptsWarning numStr bad scripts) = []"
  "filter aboutLargeImages (missingAltWarning noAlt) = []"
  "filter aboutLargeImages (largeImagesWarning numStr bad images) =
     largeImagesWarning numStr bad images"
  by (simp_all add: aboutLargeImages_def layoutStabilityWarning_def slowServerWarning_def
        interactivityWarning_def heavyScriptsWarning_def missingAltWarning_def
        largeImagesWarning_def Let_def split: option.splits)

lemma filter_aboutLayoutStability:
  "filter aboutLayoutStability (largeImagesWarning numStr bad images) = []"
  "filter aboutLayoutStability (slowServerWarning numStr v) = []"
  "filter aboutLayoutStability (interactivityWarning numStr v) = []"
  "filter aboutLayoutStability (heavyScriptsWarning numStr bad scripts) = []"
  "filter aboutLayoutStability (missingAltWarning noAlt) = []"
  "filter aboutLayoutStability (layoutStabilityWarning numStr v) =
     layoutStabilityWarning numStr v"
  by (simp_all add: aboutLayoutStability_def layoutStabilityWarning_def slowServerWarning_def
        interactivityWarning_def heavyScriptsWarning_def missingAltWarning_def
        largeImagesWarning_def Let_def split: option.splits)

lemma filter_aboutServerResponse:
  "filter aboutServerResponse (largeImagesWarning numStr bad images) = []"
  "filter aboutServerResponse (layoutStabilityWarning numStr v) = []"
  "filter aboutServerResponse (interactivityWarning numStr v) = []"
  "filter aboutServerResponse (heavyScriptsWarning numStr bad scripts) = []"
  "filter aboutServerResponse (missingAltWarning noAlt) = []"
  "filter aboutServerResponse (slowServerWarning numStr v) = slowServerWarning numStr v"
  by (simp_all add: aboutServerResponse_def layoutStabilityWarning_def slowServerWarning_def
        interactivityWarning_def heavyScriptsWarning_def missingAltWarning_def
        largeImagesWarning_def Let_def split: option.splits)

lemma filter_aboutInteractivity:
  "filter aboutInteractivity (largeImagesWarning numStr bad images) = []"
  "filter aboutInteractivity (layoutStabilityWarning numStr v) = []"
  "filter aboutInteractivity (slowServerWarning numStr v) = []"
  "filter aboutInteractivity (heavyScriptsWarning numStr bad scripts) = []"
  "filter aboutInteractivity (missingAltWarning noAlt) = []"
  "filter aboutInteractivity (interactivityWarning numStr v) = interactivityWarning numStr v"
  by (simp_all add: aboutInteractivity_def layoutStabilityWarning_def slowServerWarning_def
        interactivityWarning_def heavyScriptsWarning_def missingAltWarning_def
        largeImagesWarning_def Let_def split: option.splits)

lemma filter_aboutHeavyScripts:
  "filter aboutHeavyScripts (largeImagesWarning numStr bad images) = []"
  "filter aboutHeavyScripts (layoutStabilityWarning numStr v) = []"
  "filter aboutHeavyScripts (slowServerWarning numStr v) = []"
  "filter aboutHeavyScripts (interactivityWarning numStr v) = []"
  "filter aboutHeavyScripts (missingAltWarning noAlt) = []"
  "filter aboutHeavyScripts (heavyScriptsWarning numStr bad scripts) =
     heavyScriptsWarning numStr bad scripts"
  by (simp_all add: aboutHeavyScripts_def layoutStabilityWarning_def slowServerWarning_def
        interactivityWarning_def heavyScriptsWarning_def missingAltWarning_def
        largeImagesWarning_def Let_def split: option.splits)

lemma largeImages_of_snapshot:
  assumes "aggregationSucceeds env resources"
    and "calculatePerformanceMetrics env v = Inr m"
  shows "filter aboutLargeImages (warnings m) =
           largeImagesWarning (numberToString env) (exceeds (lcp v) 2500)
             (filter (\<lambda>r. initiatorType r = ''img'') resources)"
proof -
  obtain noAlt where "warnings m =
           largeImagesWarning (numberToString env) (exceeds (lcp v) 2500)
             (filter (\<lambda>r. initiatorType r = ''img'') resources)
           @ layoutStabilityWarning (numberToString env) v
           @ slowServerWarning (numberToString env) v
           @ interactivityWarning (numberToString env) v
           @ heavyScriptsWarning (numberToString env) (exceeds (lcp v) 2500)
               (filter (\<lambda>r. initiatorType r = ''script'') resources)
           @ missingAltWarning noAlt"
    using calculate_success [OF assms] by blast
  then show ?thesis by (simp only: filter_append filter_aboutLargeImages append_Nil2)
qed

lemma layoutStability_of_snapshot:
  assumes "aggregationSucceeds env resources"
    and "calculatePerformanceMetrics env v = Inr m"
  shows "filter aboutLayoutStability (warnings m) =
           layoutStabilityWarning (numberToString env) v"
proof -
  obtain noAlt where "warnings m =
           largeImagesWarning (numberToString env) (exceeds (lcp v) 2500)
             (filter (\<lambda>r. initiatorType r = ''img'') resources)
           @ layoutStabilityWarning (numberToString env) v
           @ slowServerWarning (numberToString env) v
           @ interactivityWarning (numberToString env) v
           @ heavyScriptsWarning (numberToString env) (exceeds (lcp v) 2500)
               (filter (\<lambda>r. initiatorType r = ''script'') resources)
           @ missingAltWarning noAlt"
    using calculate_success [OF assms] by blast
  then show ?thesis
    by (simp only: filter_append filter_aboutLayoutStability append_Nil2 append_Nil)
qed

lemma serverResponse_of_snapshot:
  assumes "aggregationSucceeds env resources"
    and "calculatePerformanceMetrics env v = Inr m"
  shows "filter aboutServerResponse (warnings m) = slowServerWarning (numberToString env) v"
proof -
  obtain noAlt where "warnings m =
           largeImagesWarning (numberToString env) (exceeds (lcp v) 2500)
             (filter (\<lambda>r. initiatorType r = ''img'') resources)
           @ layoutStabilityWarning (numberToString env) v
           @ slowServerWarning (numberToString env) v
           @ interactivityWarning (numberToString env) v
           @ heavyScriptsWarning (numberToString env) (exceeds (lcp v) 2500)
               (filter (\<lambda>r. initiatorType r = ''script'') resources)
           @ missingAltWarning noAlt"
    using calculate_success [OF assms] by blast
  then show ?thesis
    by (simp only: filter_append filter_aboutServerResponse append_Nil2 append_Nil)
qed

lemma interactivity_of_snapshot:
  assumes "aggregationSucceeds env resources"
    and "calculatePerformanceMetrics env v = Inr m"
  shows "filter aboutInteractivity (warnings m) = interactivityWarning (numberToString env) v"
proof -
  obtain noAlt where "warnings m =
           largeImagesWarning (numberToString env) (exceeds (lcp v) 2500)
             (filter (\<lambda>r. initiatorType r = ''img'') resources)
           @ layoutStabilityWarning (numberToString env) v
           @ slowServerWarning (numberToString env) v
           @ interactivityWarning (numberToString env) v
           @ heavyScriptsWarning (numberToString env) (exceeds (lcp v) 2500)
               (filter (\<lambda>r. initiatorType r = ''script'') resources)
           @ missingAltWarning noAlt"
    using calculate_success [OF assms] by blast
  then show ?thesis
    by (simp only: filter_append filter_aboutInteractivity append_Nil2 append_Nil)
qed

lemma heavyScripts_of_snapshot:
  assumes "aggregationSucceeds env resources"
    and "calculatePerformanceMetrics env v = Inr m"
  shows "filter aboutHeavyScripts (warnings m) =
           heavyScriptsWarning (numberToString env) (exceeds (lcp v) 2500)
             (filter (\<lambda>r. initiatorType r = ''script'') resources)"
proof -
  obtain noAlt where "warnings m =
           largeImagesWarning (numberToString env) (exceeds (lcp v) 2500)
             (filter (\<lambda>r. initiatorType r = ''img'') resources)
           @ layoutStabilityWarning (numberToString env) v
           @ slowServerWarning (numberToString env) v
           @ interactivityWarning (numberToString env) v
           @ heavyScriptsWarning (numberToString env) (exceeds (lcp v) 2500)
               (filter (\<lambda>r. initiatorType r = ''script'') resources)
           @ missingAltWarning noAlt"
    using calculate_success [OF assms] by blast
  then show ?thesis
    by (simp only: filter_append filter_aboutHeavyScripts append_Nil2 append_Nil)
qed

lemma sample_succeeds:
  "aggregationSucceeds sampleEnv
     [\<lparr>initiatorType = ''img'', transferSize = Some 300000\<rparr>,
      \<lparr>initiatorType = ''script'', transferSize = Some 600000\<rparr>,
      \<lparr>initiatorType = ''css'', transferSize = None\<rparr>]"
  by (simp add: aggregationSucceeds_def sampleEnv_def)

subsection \<open>C4: the large-images warning\<close>

text \<open>
  Claim C4. In the snapshot of an aggregation that ran to its end, a large-images warning
  is present exactly when the stored LCP is above 2500 and some image resource has a
  transfer size above 200000 bytes. It is then the only one, has severity high, and its
  title gives the number of such images and their mean size divided by 1024 as
  \<^verbatim>\<open>toFixed(0)\<close> prints it, which below \<open>10^21\<close> is the nearest integer. With an LCP of
  3000 and one such image of 300000 bytes the title is
  \<^verbatim>\<open>1 large images detected (avg 293KB)\<close>; with an LCP of 2000 there is no such warning,
  whatever the images.
\<close>

theorem large_images_warning:
  assumes "aggregationSucceeds env resources"
    and "calculatePerformanceMetrics env v = Inr m"
  shows "((\<exists>w \<in> set (warnings m). aboutLargeImages w)
            \<longleftrightarrow> (\<exists>l. lcp v = Some l \<and> l > 2500) \<and> largeImagesOf resources \<noteq> [])
         \<and> filter aboutLargeImages (warnings m) =
             (if (\<exists>l. lcp v = Some l \<and> l > 2500) \<and> largeImagesOf resources \<noteq> [] then
                [\<lparr>title = decimalString (length (largeImagesOf resources))
                          @ '' large images detected (avg ''
                          @ toFixed (numberToString env)
                              (real (totalBytes (largeImagesOf resources))
                                 / real (length (largeImagesOf resources)) / 1024) 0
                          @ ''KB)'',
                  solution = ''Compress images, convert to WebP/AVIF, use responsive images with srcset, implement lazy loading'',
                  severity = High\<rparr>]
              else [])
         \<and> (real (totalBytes (largeImagesOf resources))
               / real (length (largeImagesOf resources)) / 1024 < 10 ^ 21
             \<longrightarrow> toFixed (numberToString env)
                   (real (totalBytes (largeImagesOf resources))
                      / real (length (largeImagesOf resources)) / 1024) 0 =
                 decimalString (roundHalfUp
                   (real (totalBytes (largeImagesOf resources))
                      / real (length (largeImagesOf resources)) / 1024)))
         \<and> (lcp v = Some 3000 \<and> largeImagesOf resources = [img]
               \<and> transferSize img = Some 300000
             \<longrightarrow> map title (filter aboutLargeImages (warnings m)) =
                   [''1 large images detected (avg 293KB)''])
         \<and> (lcp v = Some 2000 \<longrightarrow> filter aboutLargeImages (warnings m) = [])"
proof -
  let ?large = "largeImagesOf resources"
  let ?mean = "real (totalBytes ?large) / real (length ?large) / 1024"
  let ?cond = "(\<exists>l. lcp v = Some l \<and> l > 2500) \<and> ?large \<noteq> []"
  let ?w = "\<lparr>title = decimalString (length ?large) @ '' large images detected (avg ''
                      @ toFixed (numberToString env) ?mean 0 @ ''KB)'',
              solution = ''Compress images, convert to WebP/AVIF, use responsive images with srcset, implement lazy loading'',
              severity = High\<rparr>"
  have bad: "exceeds (lcp v) 2500 \<longleftrightarrow> (\<exists>l. lcp v = Some l \<and> l > 2500)"
    by (simp add: exceeds_def split: option.splits)
  have eq: "filter aboutLargeImages (warnings m) = (if ?cond then [?w] else [])"
    unfolding largeImages_of_snapshot [OF assms] largeImagesWarning_eq bad ..
  have iff: "(\<exists>w \<in> set (warnings m). aboutLargeImages w) \<longleftrightarrow> ?cond"
  proof -
    have "(\<exists>w \<in> set (warnings m). aboutLargeImages w)
            \<longleftrightarrow> filter aboutLargeImages (warnings m) \<noteq> []"
      by (simp add: filter_empty_conv)
    also have "\<dots> \<longleftrightarrow> ?cond"
      unfolding eq by simp
    finally show ?thesis .
  qed
  have rounded: "toFixed (numberToString env) ?mean 0 = decimalString (roundHalfUp ?mean)"
    if "?mean < 10 ^ 21"
    by (rule toFixed_0 [OF _ that]) simp
  have ex1: "map title (filter aboutLargeImages (warnings m)) =
               [''1 large images detected (avg 293KB)'']"
    if "lcp v = Some 3000 \<and> ?large = [img] \<and> transferSize img = Some 300000"
  proof -
    from that have "totalBytes ?large = 300000" "length ?large = 1"
      by (simp_all add: totalBytes_def transferSizeOr0_def)
    moreover have "toFixed (numberToString env) (300000 / 1 / 1024) 0 = ''293''"
      by (simp add: toFixed_def Let_def decimalString.simps digitChar_def)
    moreover have "decimalString 1 = ''1''"
      by (simp add: decimalString.simps digitChar_def)
    ultimately show ?thesis
      unfolding eq using that by simp
  qed
  have ex2: "filter aboutLargeImages (warnings m) = []" if "lcp v = Some 2000"
    unfolding eq using that by simp
  from iff eq rounded ex1 ex2 show ?thesis
    by (intro conjI impI) blast+
qed

text \<open>The sample page, with an LCP of 3000 and with an LCP of 2000.\<close>

theorem large_images_warning_witness:
  "\<exists>resources m m'.
      aggregationSucceeds sampleEnv resources
    \<and> calculatePerformanceMetrics sampleEnv slowVitals = Inr m
    \<and> lcp slowVitals = Some 3000
    \<and> largeImagesOf resources = [\<lparr>initiatorType = ''img'', transferSize = Some 300000\<rparr>]
    \<and> map title (filter aboutLargeImages (warnings m)) =
        [''1 large images detected (avg 293KB)'']
    \<and> (\<exists>w \<in> set (warnings m). aboutLargeImages w)
    \<and> calculatePerformanceMetrics sampleEnv (slowVitals\<lparr>lcp := Some 2000\<rparr>) = Inr m'
    \<and> filter aboutLargeImages (warnings m') = []"
proof -
  let ?img = "\<lparr>initiatorType = ''img'', transferSize = Some 300000\<rparr>"
  let ?rs = "[?img, \<lparr>initiatorType = ''script'', transferSize = Some 600000\<rparr>,
              \<lparr>initiatorType = ''css'', transferSize = None\<rparr>]"
  obtain m where m: "calculatePerformanceMetrics sampleEnv slowVitals = Inr m"
    using calculate_returns by blast
  obtain m' where m': "calculatePerformanceMetrics sampleEnv (slowVitals\<lparr>lcp := Some 2000\<rparr>) = Inr m'"
    using calculate_returns by blast
  have large: "largeImagesOf ?rs = [?img]"
    by (simp add: largeImagesOf_def transferSizeOr0_def)
  have l: "lcp slowVitals = Some 3000" by (simp add: slowVitals_def)
  have l': "lcp (slowVitals\<lparr>lcp := Some 2000\<rparr>) = Some 2000" by simp
  note t = large_images_warning [OF sample_succeeds m, of ?img]
  from t [THEN conjunct2, THEN conjunct2, THEN conjunct2, THEN conjunct1] large l
  have 1: "map title (filter aboutLargeImages (warnings m)) =
             [''1 large images detected (avg 293KB)'']"
    by simp
  from t [THEN conjunct1] large l
  have 2: "\<exists>w \<in> set (warnings m). aboutLargeImages w"
    by simp
  from large_images_warning [OF sample_succeeds m', THEN conjunct2, THEN conjunct2,
         THEN conjunct2, THEN conjunct2] l'
  have 3: "filter aboutLargeImages (warnings m') = []"
    by simp
  from sample_succeeds m l large 1 2 m' 3
  have "aggregationSucceeds sampleEnv ?rs
    \<and> calculatePerformanceMetrics sampleEnv slowVitals = Inr m
    \<and> lcp slowVitals = Some 3000
    \<and> largeImagesOf ?rs = [?img]
    \<and> map title (filter aboutLargeImages (warnings m)) =
        [''1 large images detected (avg 293KB)'']
    \<and> (\<exists>w \<in> set (warnings m). aboutLargeImages w)
    \<and> calculatePerformanceMetrics sampleEnv (slowVitals\<lparr>lcp := Some 2000\<rparr>) = Inr m'
    \<and> filter aboutLargeImages (warnings m') = []"
    by (intro conjI)
  then show ?thesis
    by (intro exI)
qed

subsection \<open>C9: the interactivity warning\<close>

text \<open>
  Claim C9. In the snapshot of an aggregation that ran to its end, an interactivity warning
  is present exactly when the stored FID is above 100 or the stored INP is above 200, a
  missing value exceeding nothing. There is at most one, and it has severity high.
  Whenever the FID is above 100, also when the INP is above 200 as well, the title shows
  the FID; the INP is shown when only it is above its threshold.
\<close>

theorem interactivity_warning:
  assumes "aggregationSucceeds env resources"
    and "calculatePerformanceMetrics env v = Inr m"
  shows "((\<exists>w \<in> set (warnings m). aboutInteractivity w)
            \<longleftrightarrow> (\<exists>f. fid v = Some f \<and> f > 100) \<or> (\<exists>i. inp v = Some i \<and> i > 200))
         \<and> length (filter aboutInteractivity (warnings m)) \<le> 1
         \<and> (\<forall>w \<in> set (warnings m). aboutInteractivity w \<longrightarrow> severity w = High)
         \<and> (fid v = Some f \<and> f > 100
             \<longrightarrow> map title (filter aboutInteractivity (warnings m)) =
                   [''Slow interactivity detected (FID: '' @ numberToString env f @ ''ms)''])
         \<and> (\<not> (\<exists>f. fid v = Some f \<and> f > 100) \<and> inp v = Some i \<and> i > 200
             \<longrightarrow> map title (filter aboutInteractivity (warnings m)) =
                   [''Slow interactivity detected (INP: '' @ numberToString env i @ ''ms)''])"
proof -
  let ?F = "\<exists>f. fid v = Some f \<and> f > 100"
  let ?I = "\<exists>i. inp v = Some i \<and> i > 200"
  have F: "exceeds (fid v) 100 \<longleftrightarrow> ?F" and I: "exceeds (inp v) 200 \<longleftrightarrow> ?I"
    by (simp_all add: exceeds_def split: option.splits)
  have eq: "filter aboutInteractivity (warnings m) =
              interactivityWarning (numberToString env) v"
    by (rule interactivity_of_snapshot [OF assms])
  have iff: "(\<exists>w \<in> set (warnings m). aboutInteractivity w) \<longleftrightarrow> ?F \<or> ?I"
  proof -
    have "(\<exists>w \<in> set (warnings m). aboutInteractivity w)
            \<longleftrightarrow> filter aboutInteractivity (warnings m) \<noteq> []"
      by (simp add: filter_empty_conv)
    also have "\<dots> \<longleftrightarrow> ?F \<or> ?I"
      unfolding eq by (simp add: interactivityWarning_def Let_def F I)
    finally show ?thesis .
  qed
  have one: "length (filter aboutInteractivity (warnings m)) \<le> 1"
    unfolding eq by (simp add: interactivityWarning_def Let_def)
  have high: "\<forall>w \<in> set (warnings m). aboutInteractivity w \<longrightarrow> severity w = High"
  proof (intro ballI impI)
    fix w assume "w \<in> set (warnings m)" "aboutInteractivity w"
    then have "w \<in> set (filter aboutInteractivity (warnings m))" by simp
    then show "severity w = High"
      unfolding eq by (auto simp: interactivityWarning_def Let_def split: if_splits)
  qed
  have fidShown: "map title (filter aboutInteractivity (warnings m)) =
                   [''Slow interactivity detected (FID: '' @ numberToString env f @ ''ms)'']"
    if "fid v = Some f \<and> f > 100"
    unfolding eq using that
    by (simp add: interactivityWarning_def Let_def exceeds_def templateNumber_def)
  have inpShown: "map title (filter aboutInteractivity (warnings m)) =
                   [''Slow interactivity detected (INP: '' @ numberToString env i @ ''ms)'']"
    if "\<not> ?F \<and> inp v = Some i \<and> i > 200"
  proof -
    from that have "\<not> exceeds (fid v) 100" "exceeds (inp v) 200"
      using F by (simp_all add: exceeds_def)
    with that show ?thesis
      unfolding eq by (simp add: interactivityWarning_def Let_def templateNumber_def)
  qed
  from iff one high fidShown inpShown show ?thesis
    by (intro conjI impI) blast+
qed

text \<open>A FID of 150 and an INP of 250: both are beyond their thresholds, the FID is shown.\<close>

theorem interactivity_warning_witness:
  "\<exists>resources m.
      aggregationSucceeds sampleEnv resources
    \<and> calculatePerformanceMetrics sampleEnv slowVitals = Inr m
    \<and> fid slowVitals = Some 150 \<and> inp slowVitals = Some 250
    \<and> (\<exists>w \<in> set (warnings m). aboutInteractivity w \<and> severity w = High)
    \<and> map title (filter aboutInteractivity (warnings m)) =
        [''Slow interactivity detected (FID: 150ms)'']"
proof -
  obtain m where m: "calculatePerformanceMetrics sampleEnv slowVitals = Inr m"
    using calculate_returns by blast
  have f: "fid slowVitals = Some 150" and i: "inp slowVitals = Some 250"
    by (simp_all add: slowVitals_def)
  have n: "numberToString sampleEnv 150 = ''150''"
    by (simp add: sampleEnv_def decimalString.simps digitChar_def)
  let ?rs = "[\<lparr>initiatorType = ''img'', transferSize = Some 300000\<rparr>,
              \<lparr>initiatorType = ''script'', transferSize = Some 600000\<rparr>,
              \<lparr>initiatorType = ''css'', transferSize = None\<rparr>]"
  note t = interactivity_warning [OF sample_succeeds m, of 150]
  from t [THEN conjunct2, THEN conjunct2, THEN conjunct2, THEN conjunct1] f
  have 1: "map title (filter aboutInteractivity (warnings m)) =
        [''Slow interactivity detected (FID: 150ms)'']"
    by (simp add: n)
  from t [THEN conjunct1] f
  have ex: "\<exists>w \<in> set (warnings m). aboutInteractivity w"
    by simp
  with t [THEN conjunct2, THEN conjunct2, THEN conjunct1]
  have 2: "\<exists>w \<in> set (warnings m). aboutInteractivity w \<and> severity w = High"
    by blast
  from sample_succeeds m f i 2 1
  have "aggregationSucceeds sampleEnv ?rs
    \<and> calculatePerformanceMetrics sampleEnv slowVitals = Inr m
    \<and> fid slowVitals = Some 150 \<and> inp slowVitals = Some 250
    \<and> (\<exists>w \<in> set (warnings m). aboutInteractivity w \<and> severity w = High)
    \<and> map title (filter aboutInteractivity (warnings m)) =
        [''Slow interactivity detected (FID: 150ms)'']"
    by (intro conjI)
  then show ?thesis
    by (intro exI)
qed

subsection \<open>C5: the numbers in the warning titles\<close>

text \<open>
  Claim C5 says that a size in KB is the byte count divided by 1024 and truncated. On the
  sample page with an LCP of 3000 the aggregator reports the image of 300000 bytes as
  293KB and the script of 600000 bytes as 586KB, where truncation gives 292 and 585:
  \<^verbatim>\<open>toFixed(0)\<close> rounds to the nearest integer.
\<close>

theorem kb_sizes_are_not_truncated:
  "warningTitles (calculatePerformanceMetrics sampleEnv (initialVitals\<lparr>lcp := Some 3000\<rparr>)) =
     [''1 large images detected (avg 293KB)'',
      ''Heavy JavaScript detected (586KB across 1 files)'']
   \<and> specTruncatedKB 300000 = ''292'' \<and> specTruncatedKB 600000 = ''585''
   \<and> warningTitles (calculatePerformanceMetrics sampleEnv (initialVitals\<lparr>lcp := Some 3000\<rparr>)) \<noteq>
     [''1 large images detected (avg '' @ specTruncatedKB 300000 @ ''KB)'',
      ''Heavy JavaScript detected ('' @ specTruncatedKB 600000 @ ''KB across 1 files)'']"
proof -
  have titles:
    "warningTitles (calculatePerformanceMetrics sampleEnv (initialVitals\<lparr>lcp := Some 3000\<rparr>)) =
       [''1 large images detected (avg 293KB)'',
        ''Heavy JavaScript detected (586KB across 1 files)'']"
    by (simp add: warningTitles_def calculate_total calculateTry_def sampleEnv_def
          initialVitals_def Let_def exceeds_def transferSizeOr0_def
          largeImagesWarning_def layoutStabilityWarning_def slowServerWarning_def
          interactivityWarning_def heavyScriptsWarning_def missingAltWarning_def
          toFixed_def decimalString.simps digitChar_def)
  have trunc: "specTruncatedKB 300000 = ''292''" "specTruncatedKB 600000 = ''585''"
    by (simp_all add: specTruncatedKB_def decimalString.simps digitChar_def)
  show ?thesis
    unfolding titles trunc by simp
qed

text \<open>
  Claim C5 as amended. In the snapshot of an aggregation that ran to its end: a size in KB
  is the byte count (for images the mean, for scripts the sum) divided by 1024 and rounded
  to the nearest integer, a half upwards; the CLS is printed with exactly three decimals,
  0.12345 as \<^verbatim>\<open>0.123\<close>; the TTFB is printed with none; and the TTFB warning is present
  exactly when the stored TTFB is above 800, so not at 799.6, and at 800.1 with the text
  \<^verbatim>\<open>800\<close>. The printed forms are those of numbers below \<open>10^21\<close>.
\<close>

theorem warning_number_formats:
  assumes "aggregationSucceeds env resources"
    and "calculatePerformanceMetrics env v = Inr m"
  shows "((\<exists>l. lcp v = Some l \<and> l > 2500) \<and> largeImagesOf resources \<noteq> []
            \<and> real (totalBytes (largeImagesOf resources))
                / real (length (largeImagesOf resources)) / 1024 < 10 ^ 21
          \<longrightarrow> map title (filter aboutLargeImages (warnings m)) =
                [decimalString (length (largeImagesOf resources))
                 @ '' large images detected (avg ''
                 @ decimalString (roundHalfUp
                     (real (totalBytes (largeImagesOf resources))
                        / real (length (largeImagesOf resources)) / 1024))
                 @ ''KB)''])
         \<and> ((\<exists>l. lcp v = Some l \<and> l > 2500) \<and> largeScriptsOf resources \<noteq> []
            \<and> real (totalBytes (largeScriptsOf resources)) / 1024 < 10 ^ 21
          \<longrightarrow> map title (filter aboutHeavyScripts (warnings m)) =
                [''Heavy JavaScript detected (''
                 @ decimalString (roundHalfUp (real (totalBytes (largeScriptsOf resources)) / 1024))
                 @ ''KB across '' @ decimalString (length (largeScriptsOf resources))
                 @ '' files)''])
         \<and> (cls v > 1 / 10 \<and> cls v < 10 ^ 21 \<and> n = roundHalfUp (cls v * 1000)
          \<longrightarrow> map title (filter aboutLayoutStability (warnings m)) =
                [''Poor layout stability (CLS: '' @ decimalString (n div 1000) @ ''.''
                 @ [digitChar (n div 100 mod 10), digitChar (n div 10 mod 10),
                    digitChar (n mod 10)]
                 @ '')''])
         \<and> (cls v = 12345 / 100000
          \<longrightarrow> map title (filter aboutLayoutStability (warnings m)) =
                [''Poor layout stability (CLS: 0.123)''])
         \<and> ((\<exists>w \<in> set (warnings m). aboutServerResponse w)
              \<longleftrightarrow> (\<exists>t. ttfb v = Some t \<and> t > 800))
         \<and> (ttfb v = Some t \<and> t > 800 \<and> t < 10 ^ 21
          \<longrightarrow> map title (filter aboutServerResponse (warnings m)) =
                [''Slow server response time ('' @ decimalString (roundHalfUp t) @ ''ms)''])
         \<and> (ttfb v = Some (7996 / 10) \<longrightarrow> filter aboutServerResponse (warnings m) = [])
         \<and> (ttfb v = Some (8001 / 10)
          \<longrightarrow> map title (filter aboutServerResponse (warnings m)) =
                [''Slow server response time (800ms)''])"
proof -
  let ?ns = "numberToString env"
  let ?bad = "\<exists>l. lcp v = Some l \<and> l > 2500"
  have bad: "exceeds (lcp v) 2500 \<longleftrightarrow> ?bad"
    by (simp add: exceeds_def split: option.splits)
  have images: "map title (filter aboutLargeImages (warnings m)) =
                [decimalString (length (largeImagesOf resources))
                 @ '' large images detected (avg ''
                 @ decimalString (roundHalfUp
                     (real (totalBytes (largeImagesOf resources))
                        / real (length (largeImagesOf resources)) / 1024))
                 @ ''KB)'']"
    if "?bad \<and> largeImagesOf resources \<noteq> []
        \<and> real (totalBytes (largeImagesOf resources))
            / real (length (largeImagesOf resources)) / 1024 < 10 ^ 21"
  proof -
    have "toFixed ?ns (real (totalBytes (largeImagesOf resources))
                        / real (length (largeImagesOf resources)) / 1024) 0 =
          decimalString (roundHalfUp (real (totalBytes (largeImagesOf resources))
                        / real (length (largeImagesOf resources)) / 1024))"
      using that by (intro toFixed_0) simp_all
    with that show ?thesis
      unfolding largeImages_of_snapshot [OF assms] largeImagesWarning_eq bad by simp
  qed
  have scripts: "map title (filter aboutHeavyScripts (warnings m)) =
                [''Heavy JavaScript detected (''
                 @ decimalString (roundHalfUp (real (totalBytes (largeScriptsOf resources)) / 1024))
                 @ ''KB across '' @ decimalString (length (largeScriptsOf resources))
                 @ '' files)'']"
    if "?bad \<and> largeScriptsOf resources \<noteq> []
        \<and> real (totalBytes (largeScriptsOf resources)) / 1024 < 10 ^ 21"
  proof -
    have "toFixed ?ns (real (totalBytes (largeScriptsOf resources)) / 1024) 0 =
          decimalString (roundHalfUp (real (totalBytes (largeScriptsOf resources)) / 1024))"
      using that by (intro toFixed_0) simp_all
    with that show ?thesis
      unfolding heavyScripts_of_snapshot [OF assms] heavyScriptsWarning_eq bad by simp
  qed
  have layout: "map title (filter aboutLayoutStability (warnings m)) =
                [''Poor layout stability (CLS: '' @ decimalString (n div 1000) @ ''.''
                 @ [digitChar (n div 100 mod 10), digitChar (n div 10 mod 10),
                    digitChar (n mod 10)]
                 @ '')'']"
    if "cls v > 1 / 10 \<and> cls v < 10 ^ 21 \<and> n = roundHalfUp (cls v * 1000)"
  proof -
    have "toFixed ?ns (cls v) 3 =
            decimalString (n div 1000) @ ''.''
            @ [digitChar (n div 100 mod 10), digitChar (n div 10 mod 10), digitChar (n mod 10)]"
      using that by (intro toFixed_3) simp_all
    with that show ?thesis
      unfolding layoutStability_of_snapshot [OF assms]
      by (simp add: layoutStabilityWarning_def)
  qed
  have layoutEx: "map title (filter aboutLayoutStability (warnings m)) =
                [''Poor layout stability (CLS: 0.123)'']"
    if "cls v = 12345 / 100000"
  proof -
    have tf: "toFixed ?ns (cls v) 3 = ''0.123''"
      unfolding that by (simp add: toFixed_def Let_def decimalString.simps digitChar_def)
    have gt: "cls v > 1 / 10"
      using that by linarith
    show ?thesis
      unfolding layoutStability_of_snapshot [OF assms]
      using gt by (simp add: layoutStabilityWarning_def tf)
  qed
  have server: "filter aboutServerResponse (warnings m) = slowServerWarning ?ns v"
    by (rule serverResponse_of_snapshot [OF assms])
  have ttfbIff: "(\<exists>w \<in> set (warnings m). aboutServerResponse w)
                   \<longleftrightarrow> (\<exists>t. ttfb v = Some t \<and> t > 800)"
  proof -
    have "(\<exists>w \<in> set (warnings m). aboutServerResponse w)
            \<longleftrightarrow> filter aboutServerResponse (warnings m) \<noteq> []"
      by (simp add: filter_empty_conv)
    also have "\<dots> \<longleftrightarrow> (\<exists>t. ttfb v = Some t \<and> t > 800)"
      unfolding server by (simp add: slowServerWarning_def split: option.splits)
    finally show ?thesis .
  qed
  have ttfbTitle: "map title (filter aboutServerResponse (warnings m)) =
                [''Slow server response time ('' @ decimalString (roundHalfUp t) @ ''ms)'']"
    if "ttfb v = Some t \<and> t > 800 \<and> t < 10 ^ 21"
  proof -
    have "toFixed ?ns t 0 = decimalString (roundHalfUp t)"
      using that by (intro toFixed_0) simp_all
    with that show ?thesis
      unfolding server by (simp add: slowServerWarning_def)
  qed
  have below: "filter aboutServerResponse (warnings m) = []" if "ttfb v = Some (7996 / 10)"
    unfolding server using that by (simp add: slowServerWarning_def)
  have above: "map title (filter aboutServerResponse (warnings m)) =
                [''Slow server response time (800ms)'']"
    if "ttfb v = Some (8001 / 10)"
  proof -
    have "toFixed ?ns (8001 / 10) 0 = ''800''"
      by (simp add: toFixed_def Let_def decimalString.simps digitChar_def)
    with that show ?thesis
      unfolding server by (simp add: slowServerWarning_def)
  qed
  from images scripts layout layoutEx ttfbIff ttfbTitle below above show ?thesis
    by (intro conjI impI) blast+
qed

text \<open>
  The sample page with the store \<open>slowVitals\<close>: an image of 300000 bytes, a script of
  600000 bytes, a CLS of 0.12345 and a TTFB of 800.1; and the same with a TTFB of 799.6.
\<close>

theorem warning_number_formats_witness:
  "\<exists>resources m m'.
      aggregationSucceeds sampleEnv resources
    \<and> calculatePerformanceMetrics sampleEnv slowVitals = Inr m
    \<and> map title (filter aboutLargeImages (warnings m)) =
        [''1 large images detected (avg 293KB)'']
    \<and> map title (filter aboutHeavyScripts (warnings m)) =
        [''Heavy JavaScript detected (586KB across 1 files)'']
    \<and> cls slowVitals = 12345 / 100000
    \<and> map title (filter aboutLayoutStability (warnings m)) =
        [''Poor layout stability (CLS: 0.123)'']
    \<and> ttfb slowVitals = Some (8001 / 10)
    \<and> map title (filter aboutServerResponse (warnings m)) =
        [''Slow server response time (800ms)'']
    \<and> calculatePerformanceMetrics sampleEnv (slowVitals\<lparr>ttfb := Some (7996 / 10)\<rparr>) = Inr m'
    \<and> filter aboutServerResponse (warnings m') = []"
proof -
  let ?img = "\<lparr>initiatorType = ''img'', transferSize = Some 300000\<rparr>"
  let ?js = "\<lparr>initiatorType = ''script'', transferSize = Some 600000\<rparr>"
  let ?rs = "[?img, ?js, \<lparr>initiatorType = ''css'', transferSize = None\<rparr>]"
  obtain m where m: "calculatePerformanceMetrics sampleEnv slowVitals = Inr m"
    using calculate_returns by blast
  obtain m' where
    m': "calculatePerformanceMetrics sampleEnv (slowVitals\<lparr>ttfb := Some (7996 / 10)\<rparr>) = Inr m'"
    using calculate_returns by blast
  have li: "largeImagesOf ?rs = [?img]" and ls: "largeScriptsOf ?rs = [?js]"
    by (simp_all add: largeImagesOf_def largeScriptsOf_def transferSizeOr0_def)
  have l: "lcp slowVitals = Some 3000" and c: "cls slowVitals = 12345 / 100000"
    and t: "ttfb slowVitals = Some (8001 / 10)"
    by (simp_all add: slowVitals_def)
  have d: "decimalString (Suc 0) = ''1''" "decimalString 293 = ''293''"
    "decimalString 586 = ''586''"
    by (simp_all add: decimalString.simps digitChar_def)
  note f = warning_number_formats [OF sample_succeeds m]
  from f [THEN conjunct1] l
  have 1: "map title (filter aboutLargeImages (warnings m)) =
        [''1 large images detected (avg 293KB)'']"
    by (simp add: li totalBytes_def transferSizeOr0_def roundHalfUp_def d)
  from f [THEN conjunct2, THEN conjunct1] l
  have 2: "map title (filter aboutHeavyScripts (warnings m)) =
        [''Heavy JavaScript detected (586KB across 1 files)'']"
    by (simp add: ls totalBytes_def transferSizeOr0_def roundHalfUp_def d)
  from f [THEN conjunct2, THEN conjunct2, THEN conjunct2, THEN conjunct1] c
  have 3: "map title (filter aboutLayoutStability (warnings m)) =
        [''Poor layout stability (CLS: 0.123)'']"
    by simp
  from f [THEN conjunct2, THEN conjunct2, THEN conjunct2, THEN conjunct2, THEN conjunct2,
          THEN conjunct2, THEN conjunct2] t
  have 4: "map title (filter aboutServerResponse (warnings m)) =
        [''Slow server response time (800ms)'']"
    by simp
  from warning_number_formats [OF sample_succeeds m', THEN conjunct2, THEN conjunct2,
         THEN conjunct2, THEN conjunct2, THEN conjunct2, THEN conjunct2, THEN conjunct1]
  have 5: "filter aboutServerResponse (warnings m') = []"
    by simp
  from sample_succeeds m 1 2 c 3 t 4 m' 5
  have "aggregationSucceeds sampleEnv ?rs
    \<and> calculatePerformanceMetrics sampleEnv slowVitals = Inr m
    \<and> map title (filter aboutLargeImages (warnings m)) =
        [''1 large images detected (avg 293KB)'']
    \<and> map title (filter aboutHeavyScripts (warnings m)) =
        [''Heavy JavaScript detected (586KB across 1 files)'']
    \<and> cls slowVitals = 12345 / 100000
    \<and> map title (filter aboutLayoutStability (warnings m)) =
        [''Poor layout stability (CLS: 0.123)'']
    \<and> ttfb slowVitals = Some (8001 / 10)
    \<and> map title (filter aboutServerResponse (warnings m)) =
        [''Slow server response time (800ms)'']
    \<and> calculatePerformanceMetrics sampleEnv (slowVitals\<lparr>ttfb := Some (7996 / 10)\<rparr>) = Inr m'
    \<and> filter aboutServerResponse (warnings m') = []"
    by (intro conjI)
  then show ?thesis
    by (intro exI)
qed


end
